theory Spec2Isabelle
  imports Complex_Main
begin

section \<open>The energy sources card: a model of its computation pipeline\<close>

text \<open>
  The repository holds two copies of the card: \<^verbatim>\<open>src/custom-energy-sources-card.js\<close>
  (\<^verbatim>\<open>CARD_VERSION = '1.0.0'\<close>) and \<^verbatim>\<open>src/unnamed/part_000\<close>
  (\<^verbatim>\<open>CARD_VERSION = '1.3.0'\<close>). Both are modelled; a definition that embeds a function
  of the first file carries the suffix \<open>_v100\<close>, one that embeds a function of the second
  the suffix \<open>_v130\<close>. A definition without suffix is shared: the two files agree on it.

  Modelling conventions.
  \<^item> A finite JavaScript number is an exact rational: rounding, overflow and the sign of
    zero are not modelled. \<open>NaN\<close> and the two infinities are values of their own where
    the code can meet them.
  \<^item> A property that may be missing, \<^verbatim>\<open>null\<close> or a number is a \<open>jsval\<close>; a property
    that is a string or missing is a \<open>string option\<close>; a flag that is a boolean or missing
    is a \<open>bool option\<close>.
  \<^item> An object used as a dictionary is a finite map of its own properties, together
    with the members it inherits from \<^verbatim>\<open>Object.prototype\<close>: a lookup by a key such as
    \<^verbatim>\<open>constructor\<close> finds a function there. (Members that another script may have added
    to \<^verbatim>\<open>Object.prototype\<close> are not modelled.)
\<close>

subsection \<open>Values\<close>

datatype jsval = Undefined | Null | Number rat

text \<open>\<^verbatim>\<open>x || 0\<close> on such a value: \<^verbatim>\<open>undefined\<close>, \<^verbatim>\<open>null\<close> and \<^verbatim>\<open>0\<close> are falsy.\<close>

fun or_zero :: "jsval \<Rightarrow> rat" where
  "or_zero (Number a) = a"
| "or_zero _ = 0"

text \<open>\<^verbatim>\<open>typeof x === 'number'\<close>\<close>

fun is_number :: "jsval \<Rightarrow> bool" where
  "is_number (Number _) = True"
| "is_number _ = False"

subsection \<open>Statistics Aggregator: \<^verbatim>\<open>_processStatistics\<close>\<close>

text \<open>
  One sample of the host's \<^verbatim>\<open>recorder/statistics_during_period\<close> answer. The fields
  the code reads are \<^verbatim>\<open>sum\<close>, \<^verbatim>\<open>change\<close> and (1.0.0 only) \<^verbatim>\<open>state\<close>.
  (1.0.0 also copies \<^verbatim>\<open>unit_of_measurement\<close> into its result; nothing reads it back,
  and it is left out.)
\<close>

record stat =
  s_sum :: jsval
  s_change :: jsval
  s_state :: jsval

text \<open>\<^verbatim>\<open>stats.reduce((acc, stat) => acc + (stat.change || 0), 0)\<close>\<close>

definition sum_changes :: "stat list \<Rightarrow> rat" where
  "sum_changes stats = foldl (\<lambda>acc stat. acc + or_zero (s_change stat)) 0 stats"

text \<open>
  The body of the loop of \<^verbatim>\<open>_processStatistics\<close> in 1.3.0 (part_000, lines 302-317):
  the value stored for one entity.
\<close>

definition totalValue_v130 :: "stat list \<Rightarrow> rat" where
  "totalValue_v130 stats =
     (case stats of
        [] \<Rightarrow> 0
      | firstStat # _ \<Rightarrow>
          (let lastStat = last stats in
           case (s_sum firstStat, s_sum lastStat) of
             (Number a, Number b) \<Rightarrow> b - a
           | _ \<Rightarrow> (if is_number (s_change firstStat) then sum_changes stats else 0)))"

text \<open>
  The same loop body in 1.0.0 (lines 247-270). Its tests are \<^verbatim>\<open>!== undefined\<close>, so a
  \<^verbatim>\<open>null\<close> field passes them and counts as \<open>0\<close> in the subtraction; and there is a
  third branch on \<^verbatim>\<open>state\<close>.
\<close>

definition totalValue_v100 :: "stat list \<Rightarrow> rat" where
  "totalValue_v100 stats =
     (case stats of
        [] \<Rightarrow> 0
      | firstStat # _ \<Rightarrow>
          (let lastStat = last stats in
           if s_sum firstStat \<noteq> Undefined \<and> s_sum lastStat \<noteq> Undefined
           then or_zero (s_sum lastStat) - or_zero (s_sum firstStat)
           else if s_change firstStat \<noteq> Undefined then sum_changes stats
           else if s_state firstStat \<noteq> Undefined
           then or_zero (s_state lastStat) - or_zero (s_state firstStat)
           else 0))"

text \<open>
  \<^verbatim>\<open>for (const [entityId, stats] of Object.entries(statistics))\<close>: the entries are taken
  in order and each one writes \<^verbatim>\<open>data[entityId]\<close>.
\<close>

definition processStatistics_v130 :: "(string \<times> stat list) list \<Rightarrow> (string \<rightharpoonup> rat)" where
  "processStatistics_v130 statistics =
     foldl (\<lambda>data (entityId, stats). data(entityId \<mapsto> totalValue_v130 stats)) Map.empty statistics"

definition processStatistics_v100 :: "(string \<times> stat list) list \<Rightarrow> (string \<rightharpoonup> rat)" where
  "processStatistics_v100 statistics =
     foldl (\<lambda>data (entityId, stats). data(entityId \<mapsto> totalValue_v100 stats)) Map.empty statistics"

subsection \<open>Lookups in plain objects\<close>

text \<open>
  The names every plain object inherits from \<^verbatim>\<open>Object.prototype\<close>. Each of them is a
  function, except \<^verbatim>\<open>__proto__\<close>, which is the prototype object itself; all are truthy,
  and none has a property \<^verbatim>\<open>state\<close> or \<^verbatim>\<open>value\<close>.
\<close>

definition Object_prototype :: "string list" where
  "Object_prototype =
     [''constructor'', ''hasOwnProperty'', ''isPrototypeOf'', ''propertyIsEnumerable'',
      ''toLocaleString'', ''toString'', ''valueOf'', ''__proto__'', ''__defineGetter__'',
      ''__defineSetter__'', ''__lookupGetter__'', ''__lookupSetter__'']"

text \<open>
  The value of a display property (label, emoji, unit): a string, or the member of
  \<^verbatim>\<open>Object.prototype\<close> of the given name, which a table lookup can return.
\<close>

datatype display = Text string | Member string

text \<open>Truthiness of a display property: missing and the empty string are falsy.\<close>

fun truthy_display :: "display option \<Rightarrow> bool" where
  "truthy_display None = False"
| "truthy_display (Some (Text s)) = (s \<noteq> [])"
| "truthy_display (Some (Member m)) = True"

text \<open>\<^verbatim>\<open>a || b\<close> on display properties\<close>

definition or_display :: "display option \<Rightarrow> display option \<Rightarrow> display option" where
  "or_display a b = (if truthy_display a then a else b)"

text \<open>
  \<^verbatim>\<open>TABLE[key]\<close> for a table written as an object literal with string values: the
  table's own entry, else the inherited member of that name, else \<^verbatim>\<open>undefined\<close>.
\<close>

definition table_entry :: "(string \<rightharpoonup> string) \<Rightarrow> string \<Rightarrow> display option" where
  "table_entry table key =
     (case table key of
        Some s \<Rightarrow> Some (Text s)
      | None \<Rightarrow> (if key \<in> set Object_prototype then Some (Member key) else None))"

subsection \<open>Configuration Normalizer: \<^verbatim>\<open>_normalizeSource\<close>\<close>

text \<open>
  Strings are lists of bytes, a character outside ASCII being its UTF-8 encoding. The three
  default tables are the same in both files; the definitions below hold their own
  entries, and the code reads them through \<open>table_entry\<close>.
\<close>

definition DEFAULT_EMOJIS :: "string \<rightharpoonup> string" where
  "DEFAULT_EMOJIS = map_of
     [(''solar'', [CHR 0xE2, CHR 0x98, CHR 0x80, CHR 0xEF, CHR 0xB8, CHR 0x8F]),
      (''battery_in'', [CHR 0xF0, CHR 0x9F, CHR 0x94, CHR 0x8B]),
      (''battery_out'', [CHR 0xF0, CHR 0x9F, CHR 0xAA, CHR 0xAB]),
      (''grid_import'', [CHR 0xF0, CHR 0x9F, CHR 0x8F, CHR 0xAD]),
      (''grid_export'', [CHR 0xF0, CHR 0x9F, CHR 0x92, CHR 0xB0]),
      (''grid_net'', [CHR 0xE2, CHR 0x9A, CHR 0xA1]),
      (''gas'', [CHR 0xF0, CHR 0x9F, CHR 0x94, CHR 0xA5]),
      (''water'', [CHR 0xF0, CHR 0x9F, CHR 0x92, CHR 0xA7]),
      (''default'', [CHR 0xF0, CHR 0x9F, CHR 0x93, CHR 0x8A])]"

definition DEFAULT_LABELS :: "string \<rightharpoonup> string" where
  "DEFAULT_LABELS = map_of
     [(''solar'', ''Solar Production''),
      (''battery_in'', ''Battery Charged''),
      (''battery_out'', ''Battery Used''),
      (''grid_import'', ''Grid Import''),
      (''grid_export'', ''Grid Export''),
      (''grid_net'', ''Grid Net''),
      (''gas'', ''Gas''),
      (''water'', ''Water''),
      (''default'', ''Energy'')]"

definition DEFAULT_UNITS :: "string \<rightharpoonup> string" where
  "DEFAULT_UNITS = map_of
     [(''solar'', ''kWh''),
      (''battery_in'', ''kWh''),
      (''battery_out'', ''kWh''),
      (''grid_import'', ''kWh''),
      (''grid_export'', ''kWh''),
      (''grid_net'', ''kWh''),
      (''gas'', [CHR ''m'', CHR 0xC2, CHR 0xB3]),
      (''water'', ''gal''),
      (''default'', ''kWh'')]"

text \<open>\<^verbatim>\<open>calculate_from: { import: 'entity_id', export: 'entity_id' }\<close>\<close>

record calculate_from =
  cf_import :: "string option"
  cf_export :: "string option"

text \<open>
  A source object, as the user writes it and as \<^verbatim>\<open>_normalizeSource\<close> returns it: the
  same properties on both sides, so one record serves for both.
\<close>

record source =
  type :: "string option"
  entity :: "string option"
  label :: "display option"
  emoji :: "display option"
  unit :: "display option"
  rate_entity :: "string option"
  rate_static :: jsval
  cost_formula :: "string option"
  invert_cost :: "bool option"
  show_cost :: "bool option"
  hide_if_zero :: "bool option"
  calculate_from :: "calculate_from option"

text \<open>Truthiness of a string property: missing and the empty string are falsy.\<close>

fun truthy_str :: "string option \<Rightarrow> bool" where
  "truthy_str None = False"
| "truthy_str (Some s) = (s \<noteq> [])"

text \<open>Truthiness of a flag: missing and \<^verbatim>\<open>false\<close> are falsy.\<close>

fun truthy_flag :: "bool option \<Rightarrow> bool" where
  "truthy_flag None = False"
| "truthy_flag (Some b) = b"

text \<open>\<^verbatim>\<open>a || b\<close> on string properties\<close>

definition or_str :: "string option \<Rightarrow> string option \<Rightarrow> string option" where
  "or_str a b = (if truthy_str a then a else b)"

text \<open>\<^verbatim>\<open>const type = source.type || 'default'\<close>, a string in every case\<close>

definition type_of_source :: "source \<Rightarrow> string" where
  "type_of_source source =
     (case type source of None \<Rightarrow> ''default'' | Some t \<Rightarrow> (if t = [] then ''default'' else t))"

definition normalizeSource_v130 :: "source \<Rightarrow> source" where
  "normalizeSource_v130 source =
     (let type = type_of_source source in
      \<lparr> type = Some type,
        entity = or_str (entity source) (Some []),
        label = or_display (or_display (label source) (table_entry DEFAULT_LABELS type))
                  (table_entry DEFAULT_LABELS ''default''),
        emoji = or_display (or_display (emoji source) (table_entry DEFAULT_EMOJIS type))
                  (table_entry DEFAULT_EMOJIS ''default''),
        unit = or_display (or_display (unit source) (table_entry DEFAULT_UNITS type))
                 (table_entry DEFAULT_UNITS ''default''),
        rate_entity = or_str (rate_entity source) (Some []),
        rate_static = (if rate_static source = Undefined then Null else rate_static source),
        cost_formula = or_str (cost_formula source) (Some []),
        invert_cost = Some (truthy_flag (invert_cost source)),
        show_cost = Some (show_cost source \<noteq> Some False),
        hide_if_zero = Some (truthy_flag (hide_if_zero source)),
        calculate_from = calculate_from source \<rparr>)"

text \<open>
  1.0.0 differs in what it writes for a missing \<^verbatim>\<open>entity\<close> (left as it is),
  \<^verbatim>\<open>rate_entity\<close> and \<^verbatim>\<open>cost_formula\<close> (\<^verbatim>\<open>null\<close>, here \<open>None\<close>).
\<close>

definition normalizeSource_v100 :: "source \<Rightarrow> source" where
  "normalizeSource_v100 source =
     (let type = type_of_source source in
      \<lparr> type = Some type,
        entity = entity source,
        label = or_display (or_display (label source) (table_entry DEFAULT_LABELS type))
                  (table_entry DEFAULT_LABELS ''default''),
        emoji = or_display (or_display (emoji source) (table_entry DEFAULT_EMOJIS type))
                  (table_entry DEFAULT_EMOJIS ''default''),
        unit = or_display (or_display (unit source) (table_entry DEFAULT_UNITS type))
                 (table_entry DEFAULT_UNITS ''default''),
        rate_entity = or_str (rate_entity source) None,
        rate_static = (if rate_static source = Undefined then Null else rate_static source),
        cost_formula = or_str (cost_formula source) None,
        invert_cost = Some (truthy_flag (invert_cost source)),
        show_cost = Some (show_cost source \<noteq> Some False),
        hide_if_zero = Some (truthy_flag (hide_if_zero source)),
        calculate_from = calculate_from source \<rparr>)"

subsection \<open>Value Resolver: \<^verbatim>\<open>_getValue\<close>\<close>

text \<open>
  A property key: \<^verbatim>\<open>obj[undefined]\<close> reads the property named \<^verbatim>\<open>undefined\<close>.
\<close>

fun key_of :: "string option \<Rightarrow> string" where
  "key_of None = ''undefined''"
| "key_of (Some k) = k"

text \<open>
  \<^verbatim>\<open>this._energyData[k]?.value || 0\<close>. An inherited member has no \<^verbatim>\<open>value\<close>, so a key
  that names one counts as \<open>0\<close> like a key without entry.
\<close>

definition value_or_zero :: "(string \<rightharpoonup> rat) \<Rightarrow> string option \<Rightarrow> rat" where
  "value_or_zero energyData k = (case energyData (key_of k) of None \<Rightarrow> 0 | Some v \<Rightarrow> v)"

text \<open>\<^verbatim>\<open>_getValue\<close> is the same in both files.\<close>

definition getValue :: "(string \<rightharpoonup> rat) \<Rightarrow> source \<Rightarrow> rat" where
  "getValue energyData source =
     (case calculate_from source of
        Some cf \<Rightarrow>
          (let importVal = value_or_zero energyData (cf_import cf);
               exportVal = value_or_zero energyData (cf_export cf)
           in importVal - exportVal)
      | None \<Rightarrow> value_or_zero energyData (entity source))"

subsection \<open>Numbers that may be \<^verbatim>\<open>NaN\<close> or infinite\<close>

datatype jsnum = Fin rat | PInf | NInf | NaN

fun js_neg :: "jsnum \<Rightarrow> jsnum" where
  "js_neg (Fin a) = Fin (- a)"
| "js_neg PInf = NInf"
| "js_neg NInf = PInf"
| "js_neg NaN = NaN"

text \<open>\<^verbatim>\<open>a * b\<close>: an infinity times zero is \<^verbatim>\<open>NaN\<close>, otherwise the signs multiply.\<close>

fun js_sign :: "jsnum \<Rightarrow> int" where
  "js_sign (Fin a) = (if a < 0 then -1 else if a = 0 then 0 else 1)"
| "js_sign PInf = 1"
| "js_sign NInf = -1"
| "js_sign NaN = 0"

fun js_mul :: "jsnum \<Rightarrow> jsnum \<Rightarrow> jsnum" where
  "js_mul NaN _ = NaN"
| "js_mul _ NaN = NaN"
| "js_mul (Fin a) (Fin b) = Fin (a * b)"
| "js_mul x y =
     (if js_sign x * js_sign y = 0 then NaN
      else if js_sign x * js_sign y < 0 then NInf else PInf)"

text \<open>\<^verbatim>\<open>a + b\<close>: opposite infinities add to \<^verbatim>\<open>NaN\<close>.\<close>

fun js_add :: "jsnum \<Rightarrow> jsnum \<Rightarrow> jsnum" where
  "js_add NaN _ = NaN"
| "js_add _ NaN = NaN"
| "js_add (Fin a) (Fin b) = Fin (a + b)"
| "js_add (Fin a) y = y"
| "js_add x (Fin b) = x"
| "js_add x y = (if x = y then x else NaN)"

definition js_sub :: "jsnum \<Rightarrow> jsnum \<Rightarrow> jsnum" where
  "js_sub x y = js_add x (js_neg y)"

text \<open>\<^verbatim>\<open>isNaN(x)\<close>, \<^verbatim>\<open>x < 0\<close>, \<^verbatim>\<open>Math.abs(x)\<close> and \<^verbatim>\<open>x || 0\<close> on a number\<close>

fun isNaN :: "jsnum \<Rightarrow> bool" where
  "isNaN NaN = True"
| "isNaN _ = False"

fun js_lt_zero :: "jsnum \<Rightarrow> bool" where
  "js_lt_zero (Fin a) = (a < 0)"
| "js_lt_zero NInf = True"
| "js_lt_zero _ = False"

fun js_abs :: "jsnum \<Rightarrow> jsnum" where
  "js_abs (Fin a) = Fin \<bar>a\<bar>"
| "js_abs NaN = NaN"
| "js_abs _ = PInf"

fun num_or_zero :: "jsnum \<Rightarrow> jsnum" where
  "num_or_zero NaN = Fin 0"
| "num_or_zero x = x"

subsection \<open>\<^verbatim>\<open>parseFloat\<close>\<close>

definition is_digit :: "char \<Rightarrow> bool" where
  "is_digit c = (c \<in> set ''0123456789'')"

definition digit_value :: "char \<Rightarrow> int" where
  "digit_value c = of_char c - 48"

definition int_of_digits :: "string \<Rightarrow> int" where
  "int_of_digits ds = foldl (\<lambda>n c. 10 * n + digit_value c) 0 ds"

text \<open>
  Leading white space and line terminators are skipped: the ASCII ones, and the UTF-8
  encodings of U+00A0, U+1680, U+2000 to U+200A, U+2028, U+2029, U+202F, U+205F, U+3000
  and U+FEFF.
\<close>

fun skip_white :: "string \<Rightarrow> string" where
  "skip_white [] = []"
| "skip_white [a] = (if a \<in> set [CHR 0x09, CHR 0x0A, CHR 0x0B, CHR 0x0C, CHR 0x0D, CHR 0x20] then [] else [a])"
| "skip_white [a, b] =
     (if a \<in> set [CHR 0x09, CHR 0x0A, CHR 0x0B, CHR 0x0C, CHR 0x0D, CHR 0x20] then skip_white [b]
      else if a = CHR 0xC2 \<and> b = CHR 0xA0 then []
      else [a, b])"
| "skip_white (a # b # c # rest) =
     (if a \<in> set [CHR 0x09, CHR 0x0A, CHR 0x0B, CHR 0x0C, CHR 0x0D, CHR 0x20]
      then skip_white (b # c # rest)
      else if a = CHR 0xC2 \<and> b = CHR 0xA0 then skip_white (c # rest)
      else if (a = CHR 0xE1 \<and> b = CHR 0x9A \<and> c = CHR 0x80)
            \<or> (a = CHR 0xE2 \<and> b = CHR 0x80 \<and>
                c \<in> set [CHR 0x80, CHR 0x81, CHR 0x82, CHR 0x83, CHR 0x84, CHR 0x85, CHR 0x86,
                          CHR 0x87, CHR 0x88, CHR 0x89, CHR 0x8A, CHR 0xA8, CHR 0xA9, CHR 0xAF])
            \<or> (a = CHR 0xE2 \<and> b = CHR 0x81 \<and> c = CHR 0x9F)
            \<or> (a = CHR 0xE3 \<and> b = CHR 0x80 \<and> c = CHR 0x80)
            \<or> (a = CHR 0xEF \<and> b = CHR 0xBB \<and> c = CHR 0xBF)
      then skip_white rest
      else a # b # c # rest)"

text \<open>An optional sign in front of \<open>s\<close>: the sign and what follows it.\<close>

fun split_sign :: "string \<Rightarrow> rat \<times> string" where
  "split_sign [] = (1, [])"
| "split_sign (c # cs) =
     (if c = CHR ''+'' then (1, cs) else if c = CHR ''-'' then (-1, cs) else (1, c # cs))"

text \<open>\<open>q\<close> times ten to the power \<open>e\<close>, for an integer \<open>e\<close>\<close>

definition scale10 :: "rat \<Rightarrow> int \<Rightarrow> rat" where
  "scale10 q e = (if 0 \<le> e then q * 10 ^ nat e else q / 10 ^ nat (- e))"

text \<open>The exponent part in front of \<open>s\<close>; \<open>0\<close> when there is none with a digit.\<close>

definition exponent_part :: "string \<Rightarrow> int" where
  "exponent_part s =
     (case s of
        [] \<Rightarrow> 0
      | c # cs \<Rightarrow>
          (if c = CHR ''e'' \<or> c = CHR ''E''
           then (let (sg, ds) = split_sign cs; digits = takeWhile is_digit ds
                 in if digits = [] then 0
                    else (if sg < 0 then - int_of_digits digits else int_of_digits digits))
           else 0))"

text \<open>
  \<^verbatim>\<open>parseFloat(s)\<close>: the longest prefix of the trimmed string that is a decimal literal
  (sign, digits, fraction, exponent) or a signed \<^verbatim>\<open>Infinity\<close>; \<^verbatim>\<open>NaN\<close> when there is none.
\<close>

definition parseFloat :: "string \<Rightarrow> jsnum" where
  "parseFloat s =
     (let (sg, body) = split_sign (skip_white s) in
      if take 8 body = ''Infinity'' then (if sg < 0 then NInf else PInf)
      else
        (let intDigits = takeWhile is_digit body;
             afterInt = dropWhile is_digit body;
             hasPoint = (case afterInt of [] \<Rightarrow> False | c # _ \<Rightarrow> c = CHR ''.'');
             fracDigits = (if hasPoint then takeWhile is_digit (tl afterInt) else []);
             afterFrac = (if hasPoint then dropWhile is_digit (tl afterInt) else afterInt)
         in if intDigits = [] \<and> fracDigits = [] then NaN
            else Fin (sg * scale10 (of_int (int_of_digits (intDigits @ fracDigits)))
                            (exponent_part afterFrac - int (length fracDigits)))))"

subsection \<open>What the host's JavaScript engine supplies\<close>

text \<open>
  Three services of the engine are modelled on a fragment only, and are a parameter of the
  model outside it:
  \<^item> \<^verbatim>\<open>toLocaleString\<close> with a number of fraction digits, which depends on the locale;
  \<^item> \<^verbatim>\<open>String(x)\<close> for a number that is not printed in plain decimal notation;
  \<^item> \<^verbatim>\<open>new Function('return ' + formula)()\<close> for a formula that is not plain
    arithmetic on decimal literals. It is taken to return a number or to throw.
\<close>

datatype eval_result = Returns jsnum | Throws

record host =
  toLocaleString :: "jsnum \<Rightarrow> nat \<Rightarrow> string"
  numberToString_other :: "rat \<Rightarrow> string"
  eval_other :: "string \<Rightarrow> eval_result"

subsection \<open>\<^verbatim>\<open>String(x)\<close> on a number\<close>

definition digit_char :: "int \<Rightarrow> char" where
  "digit_char n = ''0123456789'' ! nat (n mod 10)"

text \<open>The decimal digits of a natural number, given as an integer.\<close>

function digits_of :: "int \<Rightarrow> string" where
  "digits_of n =
     (if n < 10 then [digit_char n]
      else digits_of (n div 10) @ [digit_char n])"
  by pat_completeness auto
termination
  by (relation "measure nat") auto

declare digits_of.simps [simp del]

text \<open>
  The least \<open>k \<ge> e\<close> with \<open>d\<close> dividing \<open>10 ^ k\<close>, looked for among \<open>fuel + 1\<close>
  candidates: the number of decimal places of a fraction with denominator \<open>d\<close>. It is
  below four times the number of digits of \<open>d\<close> when there is one.
\<close>

fun count_decimals :: "int \<Rightarrow> nat \<Rightarrow> nat \<Rightarrow> nat option" where
  "count_decimals d e 0 = (if d dvd 10 ^ e then Some e else None)"
| "count_decimals d e (Suc fuel) =
     (if d dvd 10 ^ e then Some e else count_decimals d (Suc e) fuel)"

text \<open>
  Plain decimal notation is what the engine prints for an integer below \<open>10 ^ 21\<close> and
  for a decimal fraction with an integer part below \<open>10 ^ 21\<close> and, when that part is
  zero, fewer than six zeros after the point. Everything else (exponent notation, and
  the rationals that are no decimal fraction) is left to the host.
\<close>

definition rat_to_string :: "host \<Rightarrow> rat \<Rightarrow> string" where
  "rat_to_string h q =
     (let (n, d) = quotient_of q;
          a = \<bar>n\<bar>;
          sgn = (if n < 0 then ''-'' else [])
      in if n = 0 then ''0''
         else
           (case count_decimals d 0 (4 * length (digits_of d)) of
              None \<Rightarrow> numberToString_other h q
            | Some e \<Rightarrow>
                (let ip = a div d;
                     fs = digits_of ((a * 10 ^ e div d) mod 10 ^ e);
                     zeros = e - length fs
                 in if 10 ^ 21 \<le> ip \<or> (ip = 0 \<and> 6 \<le> zeros) then numberToString_other h q
                    else if e = 0 then sgn @ digits_of ip
                    else sgn @ digits_of ip @ ''.'' @ replicate zeros (CHR ''0'') @ fs)))"

fun numberToString :: "host \<Rightarrow> jsnum \<Rightarrow> string" where
  "numberToString h (Fin q) = rat_to_string h q"
| "numberToString h PInf = ''Infinity''"
| "numberToString h NInf = ''-Infinity''"
| "numberToString h NaN = ''NaN''"

subsection \<open>\<^verbatim>\<open>.replace(/\bword\b/g, text)\<close>\<close>

text \<open>A word character of a regular expression: \<^verbatim>\<open>[A-Za-z0-9_]\<close>.\<close>

definition is_word :: "char \<Rightarrow> bool" where
  "is_word c =
     (c \<in> set ''abcdefghijklmnopqrstuvwxyzABCDEFGHIJKLMNOPQRSTUVWXYZ0123456789_'')"

text \<open>
  The scan goes through the string once. \<open>prev\<close> tells whether the character before the
  current one is a word character; \<open>skip\<close> counts the characters of a match still to be
  passed over. A match starts where \<open>word\<close> is a prefix, no word character comes before
  it and none comes after it.
\<close>

fun replace_scan :: "string \<Rightarrow> string \<Rightarrow> bool \<Rightarrow> nat \<Rightarrow> string \<Rightarrow> string" where
  "replace_scan word text prev skip [] = []"
| "replace_scan word text prev skip (c # cs) =
     (if 0 < skip then replace_scan word text (is_word c) (skip - 1) cs
      else if \<not> prev \<and> word \<noteq> [] \<and> take (length word) (c # cs) = word
              \<and> (case drop (length word) (c # cs) of [] \<Rightarrow> True | d # _ \<Rightarrow> \<not> is_word d)
           then text @ replace_scan word text (is_word c) (length word - 1) cs
           else c # replace_scan word text (is_word c) 0 cs)"

definition replace_word :: "string \<Rightarrow> string \<Rightarrow> string \<Rightarrow> string" where
  "replace_word word text s = replace_scan word text False 0 s"

subsection \<open>\<^verbatim>\<open>new Function('return ' + formula)()\<close> on plain arithmetic\<close>

text \<open>
  The fragment: decimal literals without exponent and without a leading zero before
  another digit, the operators \<^verbatim>\<open>+ - * /\<close>, parentheses and blanks. \<^verbatim>\<open>++\<close> and
  \<^verbatim>\<open>--\<close> are read as one token, as the engine does. A text with any other character,
  with \<^verbatim>\<open>**\<close>, \<^verbatim>\<open>//\<close> or \<^verbatim>\<open>/*\<close>, or with a literal that ends in a point, is outside
  the fragment.
\<close>

datatype token = TNum rat | TPlus | TMinus | TStar | TSlash | TLParen | TRParen | TIncr | TDecr

text \<open>The literal in front of \<open>s\<close>: its value and its length.\<close>

definition read_number :: "string \<Rightarrow> (rat \<times> nat) option" where
  "read_number s =
     (let intDigits = takeWhile is_digit s;
          afterInt = dropWhile is_digit s
      in if intDigits = [] \<or> (1 < length intDigits \<and> hd intDigits = CHR ''0'') then None
         else
           (case afterInt of
              [] \<Rightarrow> Some (of_int (int_of_digits intDigits), length intDigits)
            | c # rest \<Rightarrow>
                (if c \<noteq> CHR ''.'' then Some (of_int (int_of_digits intDigits), length intDigits)
                 else
                   (let fracDigits = takeWhile is_digit rest;
                        afterFrac = dropWhile is_digit rest
                    in if fracDigits = [] then None
                       else if (case afterFrac of [] \<Rightarrow> False | d # _ \<Rightarrow> d = CHR ''.'') then None
                       else Some (of_int (int_of_digits (intDigits @ fracDigits)) / 10 ^ length fracDigits,
                                  length intDigits + 1 + length fracDigits)))))"

text \<open>\<open>None\<close>: the text is outside the fragment. \<open>skip\<close> as in \<open>replace_scan\<close>.\<close>

fun tokenize_scan :: "nat \<Rightarrow> string \<Rightarrow> token list option" where
  "tokenize_scan skip [] = Some []"
| "tokenize_scan skip (c # cs) =
     (if 0 < skip then tokenize_scan (skip - 1) cs
      else if c = CHR 0x20 then tokenize_scan 0 cs
      else if c = CHR ''('' then map_option ((#) TLParen) (tokenize_scan 0 cs)
      else if c = CHR '')'' then map_option ((#) TRParen) (tokenize_scan 0 cs)
      else if c = CHR ''+'' then
        (if take 1 cs = ''+'' then map_option ((#) TIncr) (tokenize_scan 1 cs)
         else map_option ((#) TPlus) (tokenize_scan 0 cs))
      else if c = CHR ''-'' then
        (if take 1 cs = ''-'' then map_option ((#) TDecr) (tokenize_scan 1 cs)
         else map_option ((#) TMinus) (tokenize_scan 0 cs))
      else if c = CHR ''*'' then
        (if take 1 cs = ''*'' then None else map_option ((#) TStar) (tokenize_scan 0 cs))
      else if c = CHR ''/'' then
        (if take 1 cs = ''/'' \<or> take 1 cs = ''*'' then None
         else map_option ((#) TSlash) (tokenize_scan 0 cs))
      else if is_digit c then
        (case read_number (c # cs) of
           None \<Rightarrow> None
         | Some (q, len) \<Rightarrow> map_option ((#) (TNum q)) (tokenize_scan (len - 1) cs))
      else None)"

definition tokenize :: "string \<Rightarrow> token list option" where
  "tokenize s = tokenize_scan 0 s"

text \<open>
  \<^verbatim>\<open>a / b\<close> on the values the fragment produces. A nonzero number divided by zero is
  an infinity whose sign is the sign of the zero, which the model does not have: \<open>None\<close>.
\<close>

fun js_div :: "jsnum \<Rightarrow> jsnum \<Rightarrow> jsnum option" where
  "js_div (Fin a) (Fin b) = (if b \<noteq> 0 then Some (Fin (a / b)) else if a = 0 then Some NaN else None)"
| "js_div NaN (Fin b) = Some NaN"
| "js_div (Fin a) NaN = Some NaN"
| "js_div NaN NaN = Some NaN"
| "js_div _ _ = None"

text \<open>
  The outcome of reading an expression: its value and the tokens left, a program that
  throws (a syntax error, or a call of a number), or a program outside the fragment.
\<close>

datatype presult = POk jsnum "token list" | PThrow | POutside

text \<open>
  Recursive descent, with the precedence and associativity of the language. The first
  argument bounds the depth of the recursion; running out of it puts the text outside
  the fragment. A \<^verbatim>\<open>/\<close> where an operand is expected would start a regular expression
  literal: outside the fragment.
\<close>

fun parse_expr :: "nat \<Rightarrow> token list \<Rightarrow> presult"
  and parse_expr_rest :: "nat \<Rightarrow> jsnum \<Rightarrow> token list \<Rightarrow> presult"
  and parse_term :: "nat \<Rightarrow> token list \<Rightarrow> presult"
  and parse_term_rest :: "nat \<Rightarrow> jsnum \<Rightarrow> token list \<Rightarrow> presult"
  and parse_unary :: "nat \<Rightarrow> token list \<Rightarrow> presult"
where
  "parse_expr 0 ts = POutside"
| "parse_expr (Suc n) ts =
     (case parse_term n ts of POk v rest \<Rightarrow> parse_expr_rest n v rest | r \<Rightarrow> r)"
| "parse_expr_rest 0 acc ts = POutside"
| "parse_expr_rest (Suc n) acc [] = POk acc []"
| "parse_expr_rest (Suc n) acc (t # ts) =
     (if t = TPlus then
        (case parse_term n ts of POk v rest \<Rightarrow> parse_expr_rest n (js_add acc v) rest | r \<Rightarrow> r)
      else if t = TMinus then
        (case parse_term n ts of POk v rest \<Rightarrow> parse_expr_rest n (js_sub acc v) rest | r \<Rightarrow> r)
      else POk acc (t # ts))"
| "parse_term 0 ts = POutside"
| "parse_term (Suc n) ts =
     (case parse_unary n ts of POk v rest \<Rightarrow> parse_term_rest n v rest | r \<Rightarrow> r)"
| "parse_term_rest 0 acc ts = POutside"
| "parse_term_rest (Suc n) acc [] = POk acc []"
| "parse_term_rest (Suc n) acc (t # ts) =
     (if t = TStar then
        (case parse_unary n ts of POk v rest \<Rightarrow> parse_term_rest n (js_mul acc v) rest | r \<Rightarrow> r)
      else if t = TSlash then
        (case parse_unary n ts of
           POk v rest \<Rightarrow>
             (case js_div acc v of None \<Rightarrow> POutside | Some w \<Rightarrow> parse_term_rest n w rest)
         | r \<Rightarrow> r)
      else POk acc (t # ts))"
| "parse_unary 0 ts = POutside"
| "parse_unary (Suc n) [] = PThrow"
| "parse_unary (Suc n) (t # ts) =
     (case t of
        TNum q \<Rightarrow> POk (Fin q) ts
      | TPlus \<Rightarrow> parse_unary n ts
      | TMinus \<Rightarrow> (case parse_unary n ts of POk v rest \<Rightarrow> POk (js_neg v) rest | r \<Rightarrow> r)
      | TLParen \<Rightarrow>
          (case parse_expr n ts of
             POk v rest \<Rightarrow>
               (case rest of
                  [] \<Rightarrow> PThrow
                | u # rest' \<Rightarrow> (if u = TRParen then POk v rest' else PThrow))
           | r \<Rightarrow> r)
      | TSlash \<Rightarrow> POutside
      | _ \<Rightarrow> PThrow)"

datatype arith_result = AReturns jsnum | AThrows | AOutside

definition arith :: "string \<Rightarrow> arith_result" where
  "arith formula =
     (case tokenize formula of
        None \<Rightarrow> AOutside
      | Some [] \<Rightarrow> AOutside
      | Some (t # ts) \<Rightarrow>
          (case parse_expr (4 * length (t # ts) + 4) (t # ts) of
             POk v [] \<Rightarrow> AReturns v
           | POk v (u # us) \<Rightarrow> AThrows
           | PThrow \<Rightarrow> AThrows
           | POutside \<Rightarrow> AOutside))"

definition Function_return :: "host \<Rightarrow> string \<Rightarrow> eval_result" where
  "Function_return h formula =
     (case arith formula of
        AReturns v \<Rightarrow> Returns v
      | AThrows \<Rightarrow> Throws
      | AOutside \<Rightarrow> eval_other h formula)"

subsection \<open>Cost Evaluator: \<^verbatim>\<open>_calculateCost\<close>\<close>

text \<open>
  \<^verbatim>\<open>this._hass\<close> is \<^verbatim>\<open>null\<close> until the host sets it; its \<^verbatim>\<open>states\<close> map an
  entity id to the entity, of which the card reads the \<^verbatim>\<open>state\<close> string.
\<close>

type_synonym hass = "(string \<rightharpoonup> string) option"

text \<open>
  \<^verbatim>\<open>this._hass?.states?.[id]\<close>, given by the \<^verbatim>\<open>state\<close> that the card reads from what
  it finds; \<open>None\<close> when it finds nothing. An id that names an inherited member finds
  that member, which has no \<^verbatim>\<open>state\<close>: \<^verbatim>\<open>parseFloat\<close> and the template strings, the only
  readers of the state, both turn the missing state into the text \<^verbatim>\<open>undefined\<close>.
\<close>

definition entityState :: "hass \<Rightarrow> string \<Rightarrow> string option" where
  "entityState hass entityId =
     (case hass of
        None \<Rightarrow> None
      | Some states \<Rightarrow>
          (case states entityId of
             Some state \<Rightarrow> Some state
           | None \<Rightarrow> (if entityId \<in> set Object_prototype then Some ''undefined'' else None)))"

text \<open>The lines the card writes to the console.\<close>

datatype log =
    Debug_rate_entity_non_numeric string string
  | Debug_rate_entity_not_found string
  | Debug_no_valid_rate "display option"
  | Error_cost_formula "display option"
  | Error_evaluating_cost_formula
  | Debug_invalid_cost_value

datatype rateSource = RS_none | RS_entity | RS_static

text \<open>
  1.3.0, part_000 lines 335-366: the rate, where it comes from, and what is logged on the
  way. \<open>rate1\<close> is \<^verbatim>\<open>rate\<close> after the rate entity was tried, \<open>rate2\<close> after the static
  rate was; \<open>None\<close> is \<^verbatim>\<open>null\<close>.
\<close>

definition resolveRate_v130 :: "hass \<Rightarrow> source \<Rightarrow> jsnum \<times> rateSource \<times> log list" where
  "resolveRate_v130 hass source =
     (let (rate1, rateSource1, logs1) =
            (if truthy_str (rate_entity source) then
               (case entityState hass (key_of (rate_entity source)) of
                  Some state \<Rightarrow>
                    (let parsedRate = parseFloat state in
                     if \<not> isNaN parsedRate then (Some parsedRate, RS_entity, [])
                     else (None, RS_none,
                           [Debug_rate_entity_non_numeric (key_of (rate_entity source)) state]))
                | None \<Rightarrow>
                    (None, RS_none, [Debug_rate_entity_not_found (key_of (rate_entity source))]))
             else (None, RS_none, []));
          (rate2, rateSource2) =
            (if rate1 = None \<and> is_number (rate_static source)
             then (Some (Fin (or_zero (rate_static source))), RS_static)
             else (rate1, rateSource1))
      in case rate2 of
           None \<Rightarrow>
             (Fin 0, rateSource2,
              logs1 @ (if truthy_str (rate_entity source) \<or> rate_static source \<noteq> Null
                       then [Debug_no_valid_rate (label source)] else []))
         | Some rate \<Rightarrow> (rate, rateSource2, logs1))"

text \<open>
  1.3.0, part_000 lines 332-383. The result is the returned cost (\<open>None\<close> is \<^verbatim>\<open>null\<close>)
  and the console lines.
\<close>

definition calculateCost_v130 :: "host \<Rightarrow> hass \<Rightarrow> source \<Rightarrow> rat \<Rightarrow> jsnum option \<times> log list" where
  "calculateCost_v130 h hass source value =
     (if \<not> truthy_flag (show_cost source) then (None, [])
      else
        (let (rate, rateSource, logs) = resolveRate_v130 hass source in
         if truthy_str (cost_formula source) then
           (let formula =
                  replace_word ''rate'' (numberToString h rate)
                    (replace_word ''value'' (numberToString h (Fin value)) (the (cost_formula source)))
            in case Function_return h formula of
                 Returns result \<Rightarrow>
                   (Some (if truthy_flag (invert_cost source) then js_neg result else result), logs)
               | Throws \<Rightarrow> (None, logs @ [Error_cost_formula (label source)]))
         else
           (let cost = js_mul (Fin value) rate in
            (Some (if truthy_flag (invert_cost source) then js_neg cost else cost), logs))))"

text \<open>Truthiness of a \<open>jsval\<close>: only a number other than zero is truthy.\<close>

fun truthy_val :: "jsval \<Rightarrow> bool" where
  "truthy_val (Number a) = (a \<noteq> 0)"
| "truthy_val _ = False"

text \<open>
  1.0.0, lines 285-292: the rate. \<open>None\<close> is \<^verbatim>\<open>undefined\<close>, which \<^verbatim>\<open>rate\<close> becomes
  when \<^verbatim>\<open>rate_static\<close> is missing from the source object. As a factor it is
  \<^verbatim>\<open>NaN\<close>, as a text it is \<^verbatim>\<open>undefined\<close>.
\<close>

definition rate_v100 :: "hass \<Rightarrow> source \<Rightarrow> jsnum option" where
  "rate_v100 hass source =
     (case (if truthy_str (rate_entity source)
            then entityState hass (key_of (rate_entity source)) else None) of
        Some state \<Rightarrow> Some (num_or_zero (parseFloat state))
      | None \<Rightarrow>
          (case rate_static source of
             Null \<Rightarrow> Some (Fin 0)
           | Undefined \<Rightarrow> None
           | Number a \<Rightarrow> Some (Fin a)))"

fun rate_number :: "jsnum option \<Rightarrow> jsnum" where
  "rate_number None = NaN"
| "rate_number (Some x) = x"

fun rate_string :: "host \<Rightarrow> jsnum option \<Rightarrow> string" where
  "rate_string h None = ''undefined''"
| "rate_string h (Some x) = numberToString h x"

text \<open>1.0.0, lines 281-313.\<close>

definition calculateCost_v100 :: "host \<Rightarrow> hass \<Rightarrow> source \<Rightarrow> rat \<Rightarrow> jsnum option \<times> log list" where
  "calculateCost_v100 h hass source value =
     (if \<not> truthy_flag (show_cost source) then (None, [])
      else if value = 0 \<and> \<not> truthy_val (rate_static source) \<and> \<not> truthy_str (rate_entity source)
      then (Some (Fin 0), [])
      else
        (let rate = rate_v100 hass source in
         if truthy_str (cost_formula source) then
           (let formula =
                  replace_word ''rate'' (rate_string h rate)
                    (replace_word ''value'' (numberToString h (Fin value)) (the (cost_formula source)))
            in case Function_return h formula of
                 Returns result \<Rightarrow>
                   (Some (if truthy_flag (invert_cost source) then js_neg result else result), [])
               | Throws \<Rightarrow> (None, [Error_evaluating_cost_formula]))
         else
           (let cost = js_mul (Fin value) (rate_number rate) in
            (Some (if truthy_flag (invert_cost source) then js_neg cost else cost), []))))"

subsection \<open>Presentation Row Builder: \<^verbatim>\<open>render\<close>, and \<^verbatim>\<open>setConfig\<close>\<close>

record net_metering =
  import_entity :: "string option"
  export_entity :: "string option"
  nm_rate_entity :: "string option"
  nm_rate_static :: jsval
  nm_label :: "string option"
  nm_emoji :: "string option"
  nm_unit :: "string option"

text \<open>
  \<^verbatim>\<open>this._config\<close>. (1.3.0 also keeps \<^verbatim>\<open>period\<close> and \<^verbatim>\<open>period_entity\<close>, which choose
  the time window of the statistics request and are left out.)
\<close>

record config =
  title :: string
  show_header :: bool
  show_total :: bool
  currency :: string
  decimal_places :: nat
  cost_decimal_places :: nat
  sources :: "source list"
  net_metering :: "net_metering option"

text \<open>The fields of the card that the pipeline reads.\<close>

record card =
  c_config :: "config option"
  c_hass :: hass
  c_energyData :: "string \<rightharpoonup> rat"

text \<open>
  A row of the table. \<^verbatim>\<open>rateWarning\<close> and \<^verbatim>\<open>isCostCredit\<close> exist in 1.3.0 only
  (\<open>None\<close> in 1.0.0).
\<close>

record row =
  row_emoji :: "display option"
  row_label :: "display option"
  row_value :: string
  row_unit :: "display option"
  row_cost :: "jsnum option"
  row_costFormatted :: string
  row_rateWarning :: "string option"
  row_isNegative :: bool
  row_isCostCredit :: "bool option"

record netMeteringRow =
  nmr_emoji :: "string option"
  nmr_label :: "string option"
  nmr_value :: string
  nmr_unit :: "string option"
  nmr_cost :: jsnum
  nmr_costFormatted :: string
  nmr_isNegative :: bool
  nmr_isCredit :: bool

text \<open>
  What \<^verbatim>\<open>render\<close> computes before it writes the markup: the rows, the net metering row,
  the two accumulators, and the console lines.
\<close>

record rendered =
  rows :: "row list"
  netMeteringRow :: "netMeteringRow option"
  totalCost :: jsnum
  hasAnyCost :: bool
  console :: "log list"

text \<open>
  \<^verbatim>\<open>_formatNumber\<close>. The value is never \<^verbatim>\<open>NaN\<close> here, so the guard of 1.3.0 does not
  fire and the two files agree.
\<close>

definition formatNumber :: "host \<Rightarrow> rat \<Rightarrow> nat \<Rightarrow> string" where
  "formatNumber h value decimals = toLocaleString h (Fin value) decimals"

text \<open>\<^verbatim>\<open>_formatCost\<close> in 1.3.0, part_000 lines 393-406\<close>

definition formatCost_v130 :: "host \<Rightarrow> config \<Rightarrow> jsnum option \<Rightarrow> nat \<Rightarrow> string \<times> log list" where
  "formatCost_v130 h cfg cost decimals =
     (case cost of
        None \<Rightarrow> ([], [])
      | Some c \<Rightarrow>
          (if isNaN c then ([], [Debug_invalid_cost_value])
           else
             (let currency = (if currency cfg \<noteq> [] then currency cfg else ''$'');
                  absValue = js_abs c;
                  formatted = toLocaleString h absValue decimals
              in (if js_lt_zero c then ''-'' @ currency @ formatted else currency @ formatted, []))))"

text \<open>\<^verbatim>\<open>_formatCost\<close> in 1.0.0, lines 333-346\<close>

definition formatCost_v100 :: "host \<Rightarrow> config \<Rightarrow> jsnum option \<Rightarrow> nat \<Rightarrow> string" where
  "formatCost_v100 h cfg cost decimals =
     (case cost of
        None \<Rightarrow> []
      | Some c \<Rightarrow>
          (let currency = currency cfg;
               absValue = js_abs c;
               formatted = toLocaleString h absValue decimals
           in if js_lt_zero c then ''-'' @ currency @ formatted else currency @ formatted))"

text \<open>
  The callback of \<^verbatim>\<open>sources.map\<close> in 1.3.0, part_000 lines 418-450. It reads and writes
  \<^verbatim>\<open>totalCost\<close> and \<^verbatim>\<open>hasAnyCost\<close>, which are passed in and returned here together
  with the console lines. \<open>None\<close> is the \<^verbatim>\<open>null\<close> that \<^verbatim>\<open>filter(Boolean)\<close> drops.
\<close>

definition render_source_v130 ::
  "host \<Rightarrow> config \<Rightarrow> hass \<Rightarrow> (string \<rightharpoonup> rat) \<Rightarrow> source \<Rightarrow> jsnum \<times> bool \<times> log list
     \<Rightarrow> row option \<times> jsnum \<times> bool \<times> log list" where
  "render_source_v130 h cfg hass energyData source acc =
     (let (totalCost, hasAnyCost, logs) = acc;
          value = getValue energyData source
      in if truthy_flag (hide_if_zero source) \<and> value = 0 then (None, acc)
         else
           (let (cost, costLogs) = calculateCost_v130 h hass source value;
                (totalCost', hasAnyCost') =
                  (case cost of
                     None \<Rightarrow> (totalCost, hasAnyCost)
                   | Some c \<Rightarrow> (if \<not> isNaN c then (js_add totalCost c, True)
                               else (totalCost, hasAnyCost)));
                rateWarning =
                  (if truthy_flag (show_cost source) \<and> truthy_str (rate_entity source) then
                     (case entityState hass (key_of (rate_entity source)) of
                        None \<Rightarrow> Some ''Entity not found''
                      | Some state \<Rightarrow>
                          (if isNaN (parseFloat state) then Some (''Invalid: '' @ state) else None))
                   else None);
                (costFormatted, formatLogs) = formatCost_v130 h cfg cost (cost_decimal_places cfg)
            in (Some \<lparr> row_emoji = or_display (emoji source)
                                     (Some (Text [CHR 0xF0, CHR 0x9F, CHR 0x93, CHR 0x8A])),
                       row_label = or_display (label source) (Some (Text ''Energy'')),
                       row_value = formatNumber h value (decimal_places cfg),
                       row_unit = or_display (unit source) (Some (Text ''kWh'')),
                       row_cost = cost,
                       row_costFormatted = costFormatted,
                       row_rateWarning = rateWarning,
                       row_isNegative = (value < 0),
                       row_isCostCredit =
                         Some (case cost of None \<Rightarrow> False | Some c \<Rightarrow> js_lt_zero c) \<rparr>,
                totalCost', hasAnyCost', logs @ costLogs @ formatLogs)))"

text \<open>The callback of \<^verbatim>\<open>sources.map\<close> in 1.0.0, lines 386-408\<close>

definition render_source_v100 ::
  "host \<Rightarrow> config \<Rightarrow> hass \<Rightarrow> (string \<rightharpoonup> rat) \<Rightarrow> source \<Rightarrow> jsnum \<times> bool \<times> log list
     \<Rightarrow> row option \<times> jsnum \<times> bool \<times> log list" where
  "render_source_v100 h cfg hass energyData source acc =
     (let (totalCost, hasAnyCost, logs) = acc;
          value = getValue energyData source
      in if truthy_flag (hide_if_zero source) \<and> value = 0 then (None, acc)
         else
           (let (cost, costLogs) = calculateCost_v100 h hass source value;
                (totalCost', hasAnyCost') =
                  (case cost of
                     None \<Rightarrow> (totalCost, hasAnyCost)
                   | Some c \<Rightarrow> (js_add totalCost c, True))
            in (Some \<lparr> row_emoji = emoji source,
                       row_label = label source,
                       row_value = formatNumber h value (decimal_places cfg),
                       row_unit = unit source,
                       row_cost = cost,
                       row_costFormatted = formatCost_v100 h cfg cost (cost_decimal_places cfg),
                       row_rateWarning = None,
                       row_isNegative =
                         (value < 0 \<or> (case cost of None \<Rightarrow> False | Some c \<Rightarrow> js_lt_zero c)),
                       row_isCostCredit = None \<rparr>,
                totalCost', hasAnyCost', logs @ costLogs)))"

text \<open>
  \<^verbatim>\<open>sources.map(callback).filter(Boolean)\<close>: the sources are visited in order, each call
  starting from the accumulators the call before it left.
\<close>

primrec map_sources ::
  "(source \<Rightarrow> jsnum \<times> bool \<times> log list \<Rightarrow> row option \<times> jsnum \<times> bool \<times> log list)
     \<Rightarrow> source list \<Rightarrow> jsnum \<times> bool \<times> log list \<Rightarrow> row list \<times> jsnum \<times> bool \<times> log list" where
  "map_sources callback [] acc = ([], acc)"
| "map_sources callback (source # rest) acc =
     (let (r, acc') = callback source acc;
          (rs, acc'') = map_sources callback rest acc'
      in ((case r of None \<Rightarrow> rs | Some x \<Rightarrow> x # rs), acc''))"

text \<open>The net metering block of \<^verbatim>\<open>render\<close> in 1.3.0, part_000 lines 453-479\<close>

definition netMetering_v130 ::
  "host \<Rightarrow> config \<Rightarrow> hass \<Rightarrow> (string \<rightharpoonup> rat) \<Rightarrow> net_metering \<Rightarrow> netMeteringRow" where
  "netMetering_v130 h cfg hass energyData nm =
     (let importVal = value_or_zero energyData (import_entity nm);
          exportVal = value_or_zero energyData (export_entity nm);
          netValue = importVal - exportVal;
          rate =
            (case (if truthy_str (nm_rate_entity nm)
                   then entityState hass (key_of (nm_rate_entity nm)) else None) of
               Some state \<Rightarrow> num_or_zero (parseFloat state)
             | None \<Rightarrow> (if is_number (nm_rate_static nm) then Fin (or_zero (nm_rate_static nm))
                         else Fin 0));
          cost = js_mul (Fin netValue) rate
      in \<lparr> nmr_emoji = or_str (nm_emoji nm) (Some [CHR 0xE2, CHR 0x9A, CHR 0xA1]),
           nmr_label = or_str (nm_label nm) (Some ''Grid Net (Metered)''),
           nmr_value = formatNumber h netValue (decimal_places cfg),
           nmr_unit = or_str (nm_unit nm) (Some ''kWh''),
           nmr_cost = cost,
           nmr_costFormatted = fst (formatCost_v130 h cfg (Some cost) (cost_decimal_places cfg)),
           nmr_isNegative = (netValue < 0),
           nmr_isCredit = js_lt_zero cost \<rparr>)"

text \<open>
  \<^verbatim>\<open>_calculateNetMetering\<close> and the net metering block of \<^verbatim>\<open>render\<close> in 1.0.0,
  lines 348-376 and 412-427
\<close>

definition netMetering_v100 ::
  "host \<Rightarrow> config \<Rightarrow> hass \<Rightarrow> (string \<rightharpoonup> rat) \<Rightarrow> net_metering \<Rightarrow> netMeteringRow" where
  "netMetering_v100 h cfg hass energyData nm =
     (let importVal = value_or_zero energyData (import_entity nm);
          exportVal = value_or_zero energyData (export_entity nm);
          netValue = importVal - exportVal;
          rate =
            (case (if truthy_str (nm_rate_entity nm)
                   then entityState hass (key_of (nm_rate_entity nm)) else None) of
               Some state \<Rightarrow> Some (num_or_zero (parseFloat state))
             | None \<Rightarrow>
                 (case nm_rate_static nm of
                    Null \<Rightarrow> Some (Fin 0)
                  | Undefined \<Rightarrow> None
                  | Number a \<Rightarrow> Some (Fin a)));
          cost = js_mul (Fin netValue) (rate_number rate)
      in \<lparr> nmr_emoji = or_str (nm_emoji nm) (DEFAULT_EMOJIS ''grid_net''),
           nmr_label = or_str (nm_label nm) (Some ''Grid Net (Metered)''),
           nmr_value = formatNumber h netValue (decimal_places cfg),
           nmr_unit = or_str (nm_unit nm) (Some ''kWh''),
           nmr_cost = cost,
           nmr_costFormatted = formatCost_v100 h cfg (Some cost) (cost_decimal_places cfg),
           nmr_isNegative = (netValue < 0),
           nmr_isCredit = js_lt_zero cost \<rparr>)"

text \<open>
  \<^verbatim>\<open>render\<close> up to the point where the markup is written. \<open>None\<close>: there is no
  configuration yet, and nothing is computed.
\<close>

definition render_v130 :: "host \<Rightarrow> card \<Rightarrow> rendered option" where
  "render_v130 h c =
     (case c_config c of
        None \<Rightarrow> None
      | Some cfg \<Rightarrow>
          (let (rs, totalCost1, hasAnyCost1, logs1) =
                 map_sources (render_source_v130 h cfg (c_hass c) (c_energyData c))
                   (sources cfg) (Fin 0, False, [])
           in case net_metering cfg of
                None \<Rightarrow>
                  Some \<lparr> rows = rs, netMeteringRow = None, totalCost = totalCost1,
                         hasAnyCost = hasAnyCost1, console = logs1 \<rparr>
              | Some nm \<Rightarrow>
                  (let nmRow = netMetering_v130 h cfg (c_hass c) (c_energyData c) nm in
                   Some \<lparr> rows = rs, netMeteringRow = Some nmRow,
                          totalCost = js_add totalCost1 (nmr_cost nmRow),
                          hasAnyCost = True,
                          console = logs1 @ snd (formatCost_v130 h cfg (Some (nmr_cost nmRow))
                                                  (cost_decimal_places cfg)) \<rparr>)))"

definition render_v100 :: "host \<Rightarrow> card \<Rightarrow> rendered option" where
  "render_v100 h c =
     (case c_config c of
        None \<Rightarrow> None
      | Some cfg \<Rightarrow>
          (let (rs, totalCost1, hasAnyCost1, logs1) =
                 map_sources (render_source_v100 h cfg (c_hass c) (c_energyData c))
                   (sources cfg) (Fin 0, False, [])
           in case net_metering cfg of
                None \<Rightarrow>
                  Some \<lparr> rows = rs, netMeteringRow = None, totalCost = totalCost1,
                         hasAnyCost = hasAnyCost1, console = logs1 \<rparr>
              | Some nm \<Rightarrow>
                  (let nmRow = netMetering_v100 h cfg (c_hass c) (c_energyData c) nm in
                   Some \<lparr> rows = rs, netMeteringRow = Some nmRow,
                          totalCost = js_add totalCost1 (nmr_cost nmRow),
                          hasAnyCost = True,
                          console = logs1 \<rparr>)))"

text \<open>
  The configuration object the user writes. \<^verbatim>\<open>sources\<close> may be missing (or any falsy
  value), something that is no array, or an array.
\<close>

datatype sources_property = Sources_missing | Sources_not_an_array | Sources_array "source list"

record user_config =
  u_title :: "string option"
  u_show_header :: "bool option"
  u_show_total :: "bool option"
  u_currency :: "string option"
  u_decimal_places :: "nat option"
  u_cost_decimal_places :: "nat option"
  u_sources :: sources_property
  u_net_metering :: "net_metering option"

datatype error = Error string

text \<open>
  \<^verbatim>\<open>setConfig\<close> in 1.3.0, part_000 lines 106-125: it throws, or it stores the
  configuration and renders.
\<close>

definition setConfig_v130 :: "host \<Rightarrow> card \<Rightarrow> user_config \<Rightarrow> error + card \<times> rendered option" where
  "setConfig_v130 h c u =
     (case u_sources u of
        Sources_array (s # ss) \<Rightarrow>
          (let c' = c \<lparr> c_config := Some
                     \<lparr> title = (if truthy_str (u_title u) then the (u_title u) else ''Energy Sources''),
                       show_header = (u_show_header u \<noteq> Some False),
                       show_total = (u_show_total u \<noteq> Some False),
                       currency = (if truthy_str (u_currency u) then the (u_currency u) else ''$''),
                       decimal_places = (case u_decimal_places u of None \<Rightarrow> 2 | Some d \<Rightarrow> d),
                       cost_decimal_places =
                         (case u_cost_decimal_places u of None \<Rightarrow> 2 | Some d \<Rightarrow> d),
                       sources = map normalizeSource_v130 (s # ss),
                       net_metering = u_net_metering u \<rparr> \<rparr>
           in Inr (c', render_v130 h c'))
      | _ \<Rightarrow> Inl (Error ''Please add at least one energy source''))"

text \<open>
  \<^verbatim>\<open>setConfig\<close> in 1.0.0, lines 85-103. The object literal ends with \<^verbatim>\<open>...config\<close>:
  every property the user wrote replaces the one computed before it, \<^verbatim>\<open>sources\<close>
  among them, so that the stored sources are the user's and not the normalized ones.
\<close>

definition setConfig_v100 :: "host \<Rightarrow> card \<Rightarrow> user_config \<Rightarrow> error + card \<times> rendered option" where
  "setConfig_v100 h c u =
     (case u_sources u of
        Sources_array ss \<Rightarrow>
          (let c' = c \<lparr> c_config := Some
                     \<lparr> title = (case u_title u of None \<Rightarrow> ''Energy Sources'' | Some t \<Rightarrow> t),
                       show_header = (u_show_header u \<noteq> Some False),
                       show_total = (u_show_total u \<noteq> Some False),
                       currency = (case u_currency u of None \<Rightarrow> ''$'' | Some t \<Rightarrow> t),
                       decimal_places = (case u_decimal_places u of None \<Rightarrow> 2 | Some d \<Rightarrow> d),
                       cost_decimal_places =
                         (case u_cost_decimal_places u of None \<Rightarrow> 2 | Some d \<Rightarrow> d),
                       sources = ss,
                       net_metering = u_net_metering u \<rparr> \<rparr>
           in Inr (c', render_v100 h c'))
      | _ \<Rightarrow> Inl (Error ''You must define at least one energy source''))"

subsection \<open>Inputs for the examples\<close>

text \<open>A source with no property set, a configuration with none, a card as constructed.\<close>

definition blank_source :: source where
  "blank_source =
     \<lparr> type = None, entity = None, label = None, emoji = None, unit = None,
       rate_entity = None, rate_static = Undefined, cost_formula = None,
       invert_cost = None, show_cost = None, hide_if_zero = None, calculate_from = None \<rparr>"

definition blank_user_config :: user_config where
  "blank_user_config =
     \<lparr> u_title = None, u_show_header = None, u_show_total = None, u_currency = None,
       u_decimal_places = None, u_cost_decimal_places = None, u_sources = Sources_missing,
       u_net_metering = None \<rparr>"

definition new_card :: card where
  "new_card = \<lparr> c_config = None, c_hass = None, c_energyData = Map.empty \<rparr>"

text \<open>
  A host that prints nothing for what the model leaves to it, and whose engine throws on
  every formula outside the arithmetic fragment.
\<close>

definition plain_host :: host where
  "plain_host =
     \<lparr> toLocaleString = (\<lambda>x decimals. []),
       numberToString_other = (\<lambda>q. []),
       eval_other = (\<lambda>formula. Throws) \<rparr>"

text \<open>A display property that is a string, and not the empty one.\<close>

fun nonempty_text :: "display option \<Rightarrow> bool" where
  "nonempty_text (Some (Text s)) = (s \<noteq> [])"
| "nonempty_text _ = False"

text \<open>
  How a display field is to be filled: the result is a string that is not empty; it is
  what was given when that is not empty, else the table's own entry for the type, else
  the table's default entry.
\<close>

definition filled :: "display option \<Rightarrow> (string \<rightharpoonup> string) \<Rightarrow> string \<Rightarrow> display option \<Rightarrow> bool" where
  "filled given table t result =
     (nonempty_text result
      \<and> (if truthy_display given then result = given
         else if truthy_str (table t) then result = map_option Text (table t)
         else result = map_option Text (table ''default'')))"

text \<open>A stored configuration with the defaults of \<^verbatim>\<open>setConfig\<close> and the given sources.\<close>

definition default_config :: "source list \<Rightarrow> config" where
  "default_config ss =
     \<lparr> title = ''Energy Sources'', show_header = True, show_total = True, currency = ''$'',
       decimal_places = 2, cost_decimal_places = 2, sources = ss, net_metering = None \<rparr>"

section \<open>Properties\<close>

subsection \<open>Statistics Aggregator\<close>

lemma sum_changes_foldl:
  "foldl (\<lambda>acc stat. acc + or_zero (s_change stat)) z stats
     = z + (\<Sum>stat\<leftarrow>stats. or_zero (s_change stat))"
  by (induction stats arbitrary: z) simp_all

lemma sum_changes_sum_list: "sum_changes stats = (\<Sum>stat\<leftarrow>stats. or_zero (s_change stat))"
  by (simp add: sum_changes_def sum_changes_foldl)

text \<open>
  C4. When the first and the last sample both carry a numeric \<^verbatim>\<open>sum\<close>, the value of the
  entity is the last sum minus the first one, whatever the samples in between are. This
  holds in both files, for the value computed per entity and for the map that
  \<^verbatim>\<open>_processStatistics\<close> returns.
\<close>

theorem aggregate_cumulative_sum:
  assumes "stats \<noteq> []"
    and "s_sum (hd stats) = Number a"
    and "s_sum (last stats) = Number b"
  shows "totalValue_v130 stats = b - a \<and> totalValue_v100 stats = b - a
         \<and> processStatistics_v130 [(entityId, stats)] entityId = Some (b - a)
         \<and> processStatistics_v100 [(entityId, stats)] entityId = Some (b - a)"
  using assms
  by (cases stats) (simp_all add: totalValue_v130_def totalValue_v100_def
        processStatistics_v130_def processStatistics_v100_def)

text \<open>The samples \<^verbatim>\<open>[{sum:10},{sum:10},{sum:25}]\<close> give \<open>15\<close>.\<close>

theorem aggregate_cumulative_sum_witness:
  "totalValue_v130
     [\<lparr>s_sum = Number 10, s_change = Undefined, s_state = Undefined\<rparr>,
      \<lparr>s_sum = Number 10, s_change = Undefined, s_state = Undefined\<rparr>,
      \<lparr>s_sum = Number 25, s_change = Undefined, s_state = Undefined\<rparr>] = 15
   \<and> totalValue_v100
     [\<lparr>s_sum = Number 10, s_change = Undefined, s_state = Undefined\<rparr>,
      \<lparr>s_sum = Number 10, s_change = Undefined, s_state = Undefined\<rparr>,
      \<lparr>s_sum = Number 25, s_change = Undefined, s_state = Undefined\<rparr>] = 15"
  using aggregate_cumulative_sum [of
     "[\<lparr>s_sum = Number 10, s_change = Undefined, s_state = Undefined\<rparr>,
      \<lparr>s_sum = Number 10, s_change = Undefined, s_state = Undefined\<rparr>,
      \<lparr>s_sum = Number 25, s_change = Undefined, s_state = Undefined\<rparr>]" 10 25]
  by simp

text \<open>
  In 1.3.0 the other two branches are as the specification has them: without a numeric
  \<^verbatim>\<open>sum\<close> on both ends, the value is the sum of the \<^verbatim>\<open>change\<close> fields when the first
  sample has a numeric one (a missing \<^verbatim>\<open>change\<close> counting as \<open>0\<close>), and \<open>0\<close> otherwise;
  no sample at all gives \<open>0\<close>.
\<close>

lemma totalValue_v130_empty: "totalValue_v130 [] = 0"
  by (simp add: totalValue_v130_def)

lemma totalValue_v130_without_sums:
  assumes "stats \<noteq> []"
    and "\<not> (is_number (s_sum (hd stats)) \<and> is_number (s_sum (last stats)))"
  shows "totalValue_v130 stats =
       (if is_number (s_change (hd stats)) then (\<Sum>stat\<leftarrow>stats. or_zero (s_change stat)) else 0)"
proof (cases stats)
  case Nil
  with assms(1) show ?thesis by simp
next
  case (Cons firstStat rest)
  with assms(2) show ?thesis
    by (auto simp: totalValue_v130_def Let_def sum_changes_sum_list
          split: jsval.splits elim: is_number.elims)
qed

text \<open>
  C3. Property: for samples whose first and last do not both carry a cumulative sum,
  the value is the sum of the per-period changes when the samples carry them and exactly
  \<open>0\<close> when they carry neither field (samples with a \<^verbatim>\<open>state\<close> only included); no
  sample gives \<open>0\<close>. 1.3.0 has it (\<open>totalValue_v130_empty\<close>,
  \<open>totalValue_v130_without_sums\<close>); 1.0.0 does not, at two inputs. With \<^verbatim>\<open>[{sum:null, change:2}, {sum:null, change:3}]\<close>
  the test \<^verbatim>\<open>sum !== undefined\<close> lets \<^verbatim>\<open>null\<close> through and the value is
  \<^verbatim>\<open>null - null\<close>, that is \<open>0\<close>, not \<open>5\<close>. With samples that carry a \<^verbatim>\<open>state\<close> only,
  \<^verbatim>\<open>[{state:5}, {state:12}]\<close>, the third branch of 1.0.0 gives \<open>7\<close>, not \<open>0\<close>.
\<close>

theorem aggregate_fallback_v100_differs:
  "totalValue_v100
     [\<lparr>s_sum = Null, s_change = Number 2, s_state = Undefined\<rparr>,
      \<lparr>s_sum = Null, s_change = Number 3, s_state = Undefined\<rparr>] = 0
   \<and> totalValue_v130
     [\<lparr>s_sum = Null, s_change = Number 2, s_state = Undefined\<rparr>,
      \<lparr>s_sum = Null, s_change = Number 3, s_state = Undefined\<rparr>] = 5
   \<and> totalValue_v100
     [\<lparr>s_sum = Undefined, s_change = Undefined, s_state = Number 5\<rparr>,
      \<lparr>s_sum = Undefined, s_change = Undefined, s_state = Number 12\<rparr>] = 7
   \<and> totalValue_v130
     [\<lparr>s_sum = Undefined, s_change = Undefined, s_state = Number 5\<rparr>,
      \<lparr>s_sum = Undefined, s_change = Undefined, s_state = Number 12\<rparr>] = 0"
  by (simp add: totalValue_v100_def totalValue_v130_def sum_changes_def)

subsection \<open>Value Resolver\<close>

text \<open>
  C6. With \<^verbatim>\<open>calculate_from\<close> set, the quantity is the value stored for the import entity
  minus the value stored for the export entity; otherwise it is the value stored for
  \<^verbatim>\<open>entity\<close>. A key with no entry counts as \<open>0\<close>, and there is no other outcome.
  \<^verbatim>\<open>_getValue\<close> is the same in both files.
\<close>

theorem resolveQuantity:
  "getValue energyData source =
     (case calculate_from source of
        Some cf \<Rightarrow>
          (case energyData (key_of (cf_import cf)) of None \<Rightarrow> 0 | Some v \<Rightarrow> v)
          - (case energyData (key_of (cf_export cf)) of None \<Rightarrow> 0 | Some v \<Rightarrow> v)
      | None \<Rightarrow> (case energyData (key_of (entity source)) of None \<Rightarrow> 0 | Some v \<Rightarrow> v))"
  by (simp add: getValue_def value_or_zero_def Let_def split: option.splits)

text \<open>
  Import \<open>100\<close> and export \<open>30\<close> give \<open>70\<close>; export \<open>130\<close> gives \<open>-30\<close>; an export
  entity without statistics counts as \<open>0\<close>; a direct source reads its own entity.
\<close>

theorem resolveQuantity_witness:
  "getValue [''imp'' \<mapsto> 100, ''exp'' \<mapsto> 30]
     (blank_source \<lparr> calculate_from := Some \<lparr> cf_import = Some ''imp'', cf_export = Some ''exp'' \<rparr> \<rparr>) = 70
   \<and> getValue [''imp'' \<mapsto> 100, ''exp'' \<mapsto> 130]
     (blank_source \<lparr> calculate_from := Some \<lparr> cf_import = Some ''imp'', cf_export = Some ''exp'' \<rparr> \<rparr>) = - 30
   \<and> getValue [''imp'' \<mapsto> 100]
     (blank_source \<lparr> calculate_from := Some \<lparr> cf_import = Some ''imp'', cf_export = Some ''exp'' \<rparr> \<rparr>) = 100
   \<and> getValue [''imp'' \<mapsto> 100] (blank_source \<lparr> entity := Some ''imp'' \<rparr>) = 100
   \<and> getValue [''imp'' \<mapsto> 100] (blank_source \<lparr> entity := Some ''solar'' \<rparr>) = 0"
  using resolveQuantity [of "[''imp'' \<mapsto> 100, ''exp'' \<mapsto> 30]"
      "blank_source \<lparr> calculate_from := Some \<lparr> cf_import = Some ''imp'', cf_export = Some ''exp'' \<rparr> \<rparr>"]
    resolveQuantity [of "[''imp'' \<mapsto> 100, ''exp'' \<mapsto> 130]"
      "blank_source \<lparr> calculate_from := Some \<lparr> cf_import = Some ''imp'', cf_export = Some ''exp'' \<rparr> \<rparr>"]
    resolveQuantity [of "[''imp'' \<mapsto> 100]"
      "blank_source \<lparr> calculate_from := Some \<lparr> cf_import = Some ''imp'', cf_export = Some ''exp'' \<rparr> \<rparr>"]
    resolveQuantity [of "[''imp'' \<mapsto> 100]" "blank_source \<lparr> entity := Some ''imp'' \<rparr>"]
    resolveQuantity [of "[''imp'' \<mapsto> 100]" "blank_source \<lparr> entity := Some ''solar'' \<rparr>"]
  by (simp add: blank_source_def)

subsection \<open>Configuration Normalizer\<close>

lemma default_entries_truthy:
  "truthy_str (DEFAULT_LABELS ''default'')"
  "truthy_str (DEFAULT_EMOJIS ''default'')"
  "truthy_str (DEFAULT_UNITS ''default'')"
  by (simp_all add: DEFAULT_LABELS_def DEFAULT_EMOJIS_def DEFAULT_UNITS_def)

lemma table_entry_own:
  "key \<notin> set Object_prototype \<Longrightarrow> table_entry table key = map_option Text (table key)"
  "table key = Some s \<Longrightarrow> table_entry table key = Some (Text s)"
  by (simp_all add: table_entry_def split: option.splits)

lemma filled_or_display:
  assumes "truthy_str (table ''default'')" and "t \<notin> set Object_prototype"
    and "nonempty_text given \<or> \<not> truthy_display given"
  shows "filled given table t
           (or_display (or_display given (table_entry table t)) (table_entry table ''default''))"
proof (cases "truthy_display given")
  case True
  with assms(3) show ?thesis by (simp add: filled_def or_display_def)
next
  case False
  obtain d where d: "table ''default'' = Some d" "d \<noteq> []"
    using assms(1) by (cases "table ''default''") auto
  show ?thesis
  proof (cases "table t")
    case None
    with False d assms(2) show ?thesis
      by (simp add: filled_def or_display_def table_entry_def)
  next
    case (Some e)
    with False d show ?thesis
      by (cases "e = []") (simp_all add: filled_def or_display_def table_entry_def)
  qed
qed

text \<open>
  Away from the inherited names the normalizer of both files does what the specification
  says: for a source whose type names no member of \<^verbatim>\<open>Object.prototype\<close> and whose
  display properties are strings or missing, label, emoji and unit come out as strings
  that are not empty, the user's where the user gave one, the tables' otherwise.
\<close>

lemma normalize_fills_known_types:
  assumes "type_of_source s \<notin> set Object_prototype"
    and "nonempty_text (label s) \<or> \<not> truthy_display (label s)"
    and "nonempty_text (emoji s) \<or> \<not> truthy_display (emoji s)"
    and "nonempty_text (unit s) \<or> \<not> truthy_display (unit s)"
  shows "filled (label s) DEFAULT_LABELS (type_of_source s) (label (normalizeSource_v130 s))"
    and "filled (emoji s) DEFAULT_EMOJIS (type_of_source s) (emoji (normalizeSource_v130 s))"
    and "filled (unit s) DEFAULT_UNITS (type_of_source s) (unit (normalizeSource_v130 s))"
    and "filled (label s) DEFAULT_LABELS (type_of_source s) (label (normalizeSource_v100 s))"
    and "filled (emoji s) DEFAULT_EMOJIS (type_of_source s) (emoji (normalizeSource_v100 s))"
    and "filled (unit s) DEFAULT_UNITS (type_of_source s) (unit (normalizeSource_v100 s))"
  using assms
  by (simp_all add: normalizeSource_v130_def normalizeSource_v100_def Let_def
        filled_or_display default_entries_truthy)

text \<open>
  A gas source without display fields gets the gas defaults; a source without type keeps
  the label and unit it was given and gets the default emoji.
\<close>

lemma normalize_example:
  "map (\<lambda>s. (label s, emoji s, unit s))
     (map normalizeSource_v130
        [blank_source \<lparr> type := Some ''gas'' \<rparr>,
         blank_source \<lparr> label := Some (Text ''Roof''), unit := Some (Text ''Wh'') \<rparr>])
   = [(Some (Text ''Gas''), Some (Text [CHR 0xF0, CHR 0x9F, CHR 0x94, CHR 0xA5]),
       Some (Text [CHR ''m'', CHR 0xC2, CHR 0xB3])),
      (Some (Text ''Roof''), Some (Text [CHR 0xF0, CHR 0x9F, CHR 0x93, CHR 0x8A]),
       Some (Text ''Wh''))]"
  by code_simp

text \<open>
  1.3.0 stores the normalized list, in the order of the user's list and one descriptor
  per source.
\<close>

lemma setConfig_v130_stores_normalized:
  "setConfig_v130 h c (u \<lparr> u_sources := Sources_array ss \<rparr>) = Inr (c', r)
   \<Longrightarrow> map_option sources (c_config c') = Some (map normalizeSource_v130 ss)"
  by (cases ss) (auto simp: setConfig_v130_def Let_def)

text \<open>
  1.0.0 computes the same list and then drops it: the \<^verbatim>\<open>...config\<close> at the end of its
  object literal puts the user's own \<^verbatim>\<open>sources\<close> back.
\<close>

lemma setConfig_v100_keeps_user_sources:
  "setConfig_v100 h c (u \<lparr> u_sources := Sources_array ss \<rparr>) = Inr (c', r)
   \<Longrightarrow> map_option sources (c_config c') = Some ss"
  by (auto simp: setConfig_v100_def Let_def)

text \<open>
  C5. Property: for a list of sources that is not empty, the normalizer produces one
  descriptor per source, in order, each with a label, an emoji and a unit that are not
  empty: the user's where given, the default tables' otherwise. The code misses it at
  two inputs. In both files \<^verbatim>\<open>DEFAULT_LABELS[type]\<close> is read through the prototype chain,
  so the type \<^verbatim>\<open>constructor\<close> finds the function \<^verbatim>\<open>Object\<close>, which is truthy: label,
  emoji and unit of the descriptor are that function and not the tables' default entries.
  And 1.0.0 overwrites the normalized list with the user's: for a solar source without
  label the stored descriptor and the row have no label, where 1.3.0 stores and shows
  \<^verbatim>\<open>Solar Production\<close>.
\<close>

theorem normalize_misses_defaults:
  "label (normalizeSource_v130 (blank_source \<lparr> type := Some ''constructor'' \<rparr>))
     = Some (Member ''constructor'')
   \<and> emoji (normalizeSource_v130 (blank_source \<lparr> type := Some ''constructor'' \<rparr>))
     = Some (Member ''constructor'')
   \<and> unit (normalizeSource_v130 (blank_source \<lparr> type := Some ''constructor'' \<rparr>))
     = Some (Member ''constructor'')
   \<and> label (normalizeSource_v100 (blank_source \<lparr> type := Some ''constructor'' \<rparr>))
     = Some (Member ''constructor'')
   \<and> emoji (normalizeSource_v100 (blank_source \<lparr> type := Some ''constructor'' \<rparr>))
     = Some (Member ''constructor'')
   \<and> unit (normalizeSource_v100 (blank_source \<lparr> type := Some ''constructor'' \<rparr>))
     = Some (Member ''constructor'')
   \<and> (case setConfig_v100 plain_host new_card
              (blank_user_config \<lparr> u_sources := Sources_array
                 [blank_source \<lparr> type := Some ''solar'', entity := Some ''sensor.solar'' \<rparr>] \<rparr>) of
          Inl e \<Rightarrow> None
        | Inr (c', r) \<Rightarrow>
            Some (map_option (map label \<circ> sources) (c_config c'),
                  map_option (map row_label \<circ> rows) r))
       = Some (Some [None], Some [None])
   \<and> (case setConfig_v130 plain_host new_card
              (blank_user_config \<lparr> u_sources := Sources_array
                 [blank_source \<lparr> type := Some ''solar'', entity := Some ''sensor.solar'' \<rparr>] \<rparr>) of
          Inl e \<Rightarrow> None
        | Inr (c', r) \<Rightarrow>
            Some (map_option (map label \<circ> sources) (c_config c'),
                  map_option (map row_label \<circ> rows) r))
       = Some (Some [Some (Text ''Solar Production'')], Some [Some (Text ''Solar Production'')])"
  by code_simp

subsection \<open>\<^verbatim>\<open>setConfig\<close>\<close>

text \<open>
  1.3.0 throws for a source list that is missing, no array or empty, before anything is
  stored or rendered; 1.0.0 throws for the first two.
\<close>

lemma setConfig_v130_rejects:
  "u_sources u = Sources_missing \<or> u_sources u = Sources_not_an_array
     \<or> u_sources u = Sources_array []
   \<Longrightarrow> setConfig_v130 h c u = Inl (Error ''Please add at least one energy source'')"
  by (auto simp: setConfig_v130_def)

lemma setConfig_v100_rejects:
  "u_sources u = Sources_missing \<or> u_sources u = Sources_not_an_array
   \<Longrightarrow> setConfig_v100 h c u = Inl (Error ''You must define at least one energy source'')"
  by (auto simp: setConfig_v100_def)

text \<open>
  C1. Property: \<^verbatim>\<open>setConfig\<close> throws when the source list is empty or missing, and
  does nothing else. 1.3.0 has it (\<open>setConfig_v130_rejects\<close>). 1.0.0 does not test the
  length: with \<^verbatim>\<open>sources: []\<close> it stores the configuration and renders an empty table,
  although its own message asks for at least one source.
\<close>

theorem setConfig_v100_accepts_empty_list:
  "setConfig_v100 plain_host new_card (blank_user_config \<lparr> u_sources := Sources_array [] \<rparr>)
     = Inr (new_card \<lparr> c_config := Some
                \<lparr> title = ''Energy Sources'', show_header = True, show_total = True,
                  currency = ''$'', decimal_places = 2, cost_decimal_places = 2, sources = [],
                  net_metering = None \<rparr> \<rparr>,
            Some \<lparr> rows = [], netMeteringRow = None, totalCost = Fin 0, hasAnyCost = False,
                   console = [] \<rparr>)
   \<and> setConfig_v130 plain_host new_card (blank_user_config \<lparr> u_sources := Sources_array [] \<rparr>)
     = Inl (Error ''Please add at least one energy source'')"
  by (simp add: setConfig_v100_def setConfig_v130_def blank_user_config_def new_card_def
        render_v100_def)

subsection \<open>Cost Evaluator\<close>

text \<open>
  The rate of 1.3.0, in the order of the specification: the parsed state of the rate
  entity when the entity is configured, known to the host and numeric; else the static
  rate when it is a number; else \<open>0\<close>. The provenance follows the same order.
\<close>

lemma resolveRate_v130_order:
  "fst (resolveRate_v130 hass source) =
     (case (if truthy_str (rate_entity source)
            then entityState hass (key_of (rate_entity source)) else None) of
        Some state \<Rightarrow>
          (if \<not> isNaN (parseFloat state) then parseFloat state
           else (case rate_static source of Number a \<Rightarrow> Fin a | _ \<Rightarrow> Fin 0))
      | None \<Rightarrow> (case rate_static source of Number a \<Rightarrow> Fin a | _ \<Rightarrow> Fin 0))"
  by (simp add: resolveRate_v130_def Let_def split: option.splits jsval.splits)

lemma resolveRate_v130_provenance:
  "fst (snd (resolveRate_v130 hass source)) =
     (case (if truthy_str (rate_entity source)
            then entityState hass (key_of (rate_entity source)) else None) of
        Some state \<Rightarrow>
          (if \<not> isNaN (parseFloat state) then RS_entity
           else (case rate_static source of Number a \<Rightarrow> RS_static | _ \<Rightarrow> RS_none))
      | None \<Rightarrow> (case rate_static source of Number a \<Rightarrow> RS_static | _ \<Rightarrow> RS_none))"
  by (simp add: resolveRate_v130_def Let_def split: option.splits jsval.splits)

text \<open>
  A rate entity whose state is not numeric leaves a line on the console and a warning on
  the row; the cost is computed all the same (\<open>calculateCost_v130_standard\<close> below).
\<close>

lemma resolveRate_v130_warns:
  assumes "truthy_str (rate_entity source)"
    and "entityState hass (key_of (rate_entity source)) = Some state"
    and "isNaN (parseFloat state)"
  shows "Debug_rate_entity_non_numeric (key_of (rate_entity source)) state
           \<in> set (snd (snd (resolveRate_v130 hass source)))"
  using assms by (simp add: resolveRate_v130_def Let_def split: option.splits jsval.splits)

lemma render_source_v130_rate_warning:
  assumes "truthy_flag (show_cost source)" and "truthy_str (rate_entity source)"
    and "entityState hass (key_of (rate_entity source)) = Some state"
    and "isNaN (parseFloat state)"
    and "\<not> (truthy_flag (hide_if_zero source) \<and> getValue energyData source = 0)"
  shows "map_option row_rateWarning (fst (render_source_v130 h cfg hass energyData source acc))
           = Some (Some (''Invalid: '' @ state))"
  using assms by (simp add: render_source_v130_def split_beta Let_def)

lemma calculateCost_v130_standard:
  assumes "truthy_flag (show_cost source)" and "\<not> truthy_str (cost_formula source)"
  shows "calculateCost_v130 h hass source value =
     (Some (if truthy_flag (invert_cost source)
            then js_neg (js_mul (Fin value) (fst (resolveRate_v130 hass source)))
            else js_mul (Fin value) (fst (resolveRate_v130 hass source))),
      snd (snd (resolveRate_v130 hass source)))"
  using assms by (simp add: calculateCost_v130_def Let_def split_beta)

text \<open>
  C2. Property: with \<^verbatim>\<open>show_cost\<close>, the rate is the numeric state of the rate entity,
  else the static rate when it is a number, else \<open>0\<close>; a rate entity with a state that
  is not numeric only adds a warning, and the static rate is used when there is one.
  1.3.0 has it (\<open>resolveRate_v130_order\<close>, \<open>resolveRate_v130_warns\<close>,
  \<open>render_source_v130_rate_warning\<close>). In 1.0.0 a rate entity that the host knows decides
  the rate alone: \<^verbatim>\<open>parseFloat(state) || 0\<close>. With the state \<^verbatim>\<open>unavailable\<close>, a static
  rate of \<open>0.15\<close> and a quantity of \<open>10\<close>, 1.0.0 takes the rate \<open>0\<close> and returns the cost
  \<open>0\<close>, without any warning; 1.3.0 falls back to the static rate and returns \<open>1.5\<close>.
\<close>

theorem rate_fallback_v100_differs:
  "calculateCost_v100 plain_host (Some [''sensor.rate'' \<mapsto> ''unavailable''])
     (blank_source \<lparr> show_cost := Some True, rate_entity := Some ''sensor.rate'',
                     rate_static := Number (3 / 20) \<rparr>) 10
     = (Some (Fin 0), [])
   \<and> calculateCost_v130 plain_host (Some [''sensor.rate'' \<mapsto> ''unavailable''])
     (blank_source \<lparr> show_cost := Some True, rate_entity := Some ''sensor.rate'',
                     rate_static := Number (3 / 20) \<rparr>) 10
     = (Some (Fin (3 / 2)), [Debug_rate_entity_non_numeric ''sensor.rate'' ''unavailable''])"
  by code_simp

text \<open>
  C8. Without \<^verbatim>\<open>show_cost\<close> the cost is \<^verbatim>\<open>null\<close>. With it and without a formula, the
  cost is the quantity times the rate the file resolves, negated when \<^verbatim>\<open>invert_cost\<close>
  is set. This holds of 1.3.0 for every source, and of 1.0.0 for every descriptor, that
  is for every source whose \<^verbatim>\<open>rate_static\<close> is \<^verbatim>\<open>null\<close> or a number, as
  \<^verbatim>\<open>_normalizeSource\<close> leaves it.
\<close>

theorem evaluateCost_standard:
  "(\<not> truthy_flag (show_cost source) \<longrightarrow>
      fst (calculateCost_v130 h hass source value) = None
      \<and> fst (calculateCost_v100 h hass source value) = None)
   \<and> (truthy_flag (show_cost source) \<and> \<not> truthy_str (cost_formula source) \<longrightarrow>
        fst (calculateCost_v130 h hass source value)
          = Some (if truthy_flag (invert_cost source)
                  then js_neg (js_mul (Fin value) (fst (resolveRate_v130 hass source)))
                  else js_mul (Fin value) (fst (resolveRate_v130 hass source)))
        \<and> (rate_static source \<noteq> Undefined \<longrightarrow>
            fst (calculateCost_v100 h hass source value)
              = Some (if truthy_flag (invert_cost source)
                      then js_neg (js_mul (Fin value) (rate_number (rate_v100 hass source)))
                      else js_mul (Fin value) (rate_number (rate_v100 hass source)))))"
  by (cases "rate_static source")
     (auto simp: calculateCost_v130_def calculateCost_v100_def Let_def split_beta rate_v100_def)

lemma normalized_rate_static:
  "rate_static (normalizeSource_v100 s) \<noteq> Undefined"
  "rate_static (normalizeSource_v130 s) \<noteq> Undefined"
  by (simp_all add: normalizeSource_v100_def normalizeSource_v130_def Let_def)

text \<open>
  Quantity \<open>10\<close> at the static rate \<open>0.20\<close> costs \<open>2\<close>, and \<open>-2\<close> with
  \<^verbatim>\<open>invert_cost\<close>; with \<^verbatim>\<open>show_cost: false\<close> there is no cost.
\<close>

theorem evaluateCost_standard_witness:
  "fst (calculateCost_v130 plain_host None
          (blank_source \<lparr> show_cost := Some True, rate_static := Number (1 / 5) \<rparr>) 10)
     = Some (Fin 2)
   \<and> fst (calculateCost_v100 plain_host None
          (blank_source \<lparr> show_cost := Some True, rate_static := Number (1 / 5) \<rparr>) 10)
     = Some (Fin 2)
   \<and> fst (calculateCost_v130 plain_host None
          (blank_source \<lparr> show_cost := Some True, rate_static := Number (1 / 5),
                          invert_cost := Some True \<rparr>) 10)
     = Some (Fin (- 2))
   \<and> fst (calculateCost_v100 plain_host None
          (blank_source \<lparr> show_cost := Some True, rate_static := Number (1 / 5),
                          invert_cost := Some True \<rparr>) 10)
     = Some (Fin (- 2))
   \<and> fst (calculateCost_v130 plain_host None
          (blank_source \<lparr> show_cost := Some False, rate_static := Number (1 / 5) \<rparr>) 10)
     = None
   \<and> fst (calculateCost_v100 plain_host None
          (blank_source \<lparr> show_cost := Some False, rate_static := Number (1 / 5) \<rparr>) 10)
     = None"
  using evaluateCost_standard [of
      "blank_source \<lparr> show_cost := Some True, rate_static := Number (1 / 5) \<rparr>"
      plain_host None 10]
    evaluateCost_standard [of
      "blank_source \<lparr> show_cost := Some True, rate_static := Number (1 / 5),
                      invert_cost := Some True \<rparr>"
      plain_host None 10]
    evaluateCost_standard [of
      "blank_source \<lparr> show_cost := Some False, rate_static := Number (1 / 5) \<rparr>"
      plain_host None 10]
  by (simp add: blank_source_def resolveRate_v130_def rate_v100_def entityState_def)

text \<open>
  With a formula, 1.3.0 replaces the words \<^verbatim>\<open>value\<close> and \<^verbatim>\<open>rate\<close> by the printed
  numbers and evaluates the text. When that throws, the cost is \<^verbatim>\<open>null\<close> and the error
  is written to the console.
\<close>

lemma calculateCost_v130_formula:
  assumes "truthy_flag (show_cost source)" and "truthy_str (cost_formula source)"
  shows "calculateCost_v130 h hass source value =
     (case Function_return h
             (replace_word ''rate'' (numberToString h (fst (resolveRate_v130 hass source)))
               (replace_word ''value'' (numberToString h (Fin value)) (the (cost_formula source)))) of
        Returns result \<Rightarrow>
          (Some (if truthy_flag (invert_cost source) then js_neg result else result),
           snd (snd (resolveRate_v130 hass source)))
      | Throws \<Rightarrow>
          (None, snd (snd (resolveRate_v130 hass source)) @ [Error_cost_formula (label source)]))"
  using assms by (simp add: calculateCost_v130_def Let_def split_beta)

text \<open>
  The formula \<^verbatim>\<open>value * rate + 5\<close> with quantity \<open>10\<close> and rate \<open>0.2\<close> gives \<open>7\<close>, in
  both files and on every host. The malformed \<^verbatim>\<open>value * * rate\<close> gives \<^verbatim>\<open>null\<close> and a
  console line.
\<close>

lemma formula_example:
  "calculateCost_v130 h None
     (blank_source \<lparr> show_cost := Some True, rate_static := Number (1 / 5),
                     cost_formula := Some ''value * rate + 5'' \<rparr>) 10 = (Some (Fin 7), [])"
  "calculateCost_v100 h None
     (blank_source \<lparr> show_cost := Some True, rate_static := Number (1 / 5),
                     cost_formula := Some ''value * rate + 5'' \<rparr>) 10 = (Some (Fin 7), [])"
  by code_simp+

lemma malformed_formula_example:
  "calculateCost_v130 h None
     (blank_source \<lparr> show_cost := Some True, rate_static := Number (1 / 5),
                     cost_formula := Some ''value * * rate'' \<rparr>) 10
     = (None, [Error_cost_formula None])"
  "calculateCost_v100 h None
     (blank_source \<lparr> show_cost := Some True, rate_static := Number (1 / 5),
                     cost_formula := Some ''value * * rate'' \<rparr>) 10
     = (None, [Error_evaluating_cost_formula])"
  by code_simp+

text \<open>
  A source without cost still gets its row, and leaves the running total and the flag
  \<^verbatim>\<open>hasAnyCost\<close> as they were: the sources after it are computed as if it had no cost
  column.
\<close>

lemma render_source_v130_null:
  assumes "calculateCost_v130 h hass source (getValue energyData source) = (None, l)"
    and "\<not> (truthy_flag (hide_if_zero source) \<and> getValue energyData source = 0)"
  shows "\<exists>r. render_source_v130 h cfg hass energyData source (tc, hasAny, logs)
              = (Some r, tc, hasAny, logs @ l)
            \<and> row_cost r = None \<and> row_costFormatted r = []"
  using assms by (simp add: render_source_v130_def formatCost_v130_def split_beta Let_def)

text \<open>
  Two sources, the first with a malformed formula: both have their row, the first
  without cost, and the total is the cost of the second (\<open>40\<close> at \<open>0.15\<close>).
\<close>

lemma malformed_formula_does_not_stop_render:
  "map_option (map row_cost \<circ> rows)
     (render_v130 plain_host
        \<lparr> c_config = Some (default_config
             [blank_source \<lparr> entity := Some ''grid'', show_cost := Some True,
                             rate_static := Number (1 / 5), cost_formula := Some ''value * * rate'' \<rparr>,
              blank_source \<lparr> entity := Some ''solar'', show_cost := Some True,
                             rate_static := Number (3 / 20) \<rparr>]),
          c_hass = None, c_energyData = [''grid'' \<mapsto> 10, ''solar'' \<mapsto> 40] \<rparr>)
     = Some [None, Some (Fin 6)]"
  "map_option totalCost
     (render_v130 plain_host
        \<lparr> c_config = Some (default_config
             [blank_source \<lparr> entity := Some ''grid'', show_cost := Some True,
                             rate_static := Number (1 / 5), cost_formula := Some ''value * * rate'' \<rparr>,
              blank_source \<lparr> entity := Some ''solar'', show_cost := Some True,
                             rate_static := Number (3 / 20) \<rparr>]),
          c_hass = None, c_energyData = [''grid'' \<mapsto> 10, ''solar'' \<mapsto> 40] \<rparr>)
     = Some (Fin 6)"
  "map_option console
     (render_v130 plain_host
        \<lparr> c_config = Some (default_config
             [blank_source \<lparr> entity := Some ''grid'', show_cost := Some True,
                             rate_static := Number (1 / 5), cost_formula := Some ''value * * rate'' \<rparr>,
              blank_source \<lparr> entity := Some ''solar'', show_cost := Some True,
                             rate_static := Number (3 / 20) \<rparr>]),
          c_hass = None, c_energyData = [''grid'' \<mapsto> 10, ''solar'' \<mapsto> 40] \<rparr>)
     = Some [Error_cost_formula None]"
  by code_simp+

text \<open>
  C7. Property: when a formula is present, the words \<^verbatim>\<open>value\<close> and \<^verbatim>\<open>rate\<close> in it are
  replaced by the numbers and the text is evaluated (\<^verbatim>\<open>value * rate + 5\<close> at \<open>10\<close> and
  \<open>0.2\<close> is \<open>7\<close>); a malformed formula gives no cost and a report, and the other
  sources are computed as before. 1.3.0 has it (\<open>calculateCost_v130_formula\<close>,
  \<open>formula_example\<close>, \<open>malformed_formula_example\<close>, \<open>render_source_v130_null\<close>,
  \<open>malformed_formula_does_not_stop_render\<close>). 1.0.0 returns \<open>0\<close> before it
  looks at the formula when the quantity is \<open>0\<close> and no rate is configured: the formula
  \<^verbatim>\<open>value * rate + 5\<close> then costs \<open>0\<close> and not \<open>5\<close>, and the malformed \<^verbatim>\<open>value +\<close> costs
  \<open>0\<close> without any report, where 1.3.0 gives \<open>5\<close> and \<^verbatim>\<open>null\<close> with a console line.
\<close>

theorem formula_v100_skipped_at_zero:
  "calculateCost_v100 plain_host None
     (blank_source \<lparr> show_cost := Some True, rate_static := Null,
                     cost_formula := Some ''value * rate + 5'' \<rparr>) 0
     = (Some (Fin 0), [])
   \<and> calculateCost_v130 plain_host None
     (blank_source \<lparr> show_cost := Some True, rate_static := Null,
                     cost_formula := Some ''value * rate + 5'' \<rparr>) 0
     = (Some (Fin 5), [])
   \<and> calculateCost_v100 plain_host None
     (blank_source \<lparr> show_cost := Some True, rate_static := Null,
                     cost_formula := Some ''value +'' \<rparr>) 0
     = (Some (Fin 0), [])
   \<and> calculateCost_v130 plain_host None
     (blank_source \<lparr> show_cost := Some True, rate_static := Null,
                     cost_formula := Some ''value +'' \<rparr>) 0
     = (None, [Error_cost_formula None])"
  by code_simp

subsection \<open>Presentation Row Builder\<close>

lemma render_source_hidden:
  assumes "truthy_flag (hide_if_zero source)" and "getValue energyData source = 0"
  shows "render_source_v130 h cfg hass energyData source acc = (None, acc)"
    and "render_source_v100 h cfg hass energyData source acc = (None, acc)"
  using assms by (simp_all add: render_source_v130_def render_source_v100_def split_beta)

lemma map_sources_append:
  "map_sources callback (xs @ ys) acc =
     (let (rs, acc') = map_sources callback xs acc;
          (rs', acc'') = map_sources callback ys acc'
      in (rs @ rs', acc''))"
  by (induction xs arbitrary: acc) (simp_all add: split_beta Let_def split: option.splits)

lemma map_sources_skip:
  assumes "\<And>acc. callback source acc = (None, acc)"
  shows "map_sources callback (before @ source # after) acc
           = map_sources callback (before @ after) acc"
  using assms by (simp add: map_sources_append split_beta Let_def)

text \<open>
  C9. A source with \<^verbatim>\<open>hide_if_zero\<close> set whose quantity is exactly \<open>0\<close> produces no row
  (the callback returns \<^verbatim>\<open>null\<close>) and changes nothing: the rows, the total, the flag and
  the console are what they would be if the source were not in the list. When it is the only source and there is no net
  metering, there are no rows and \<^verbatim>\<open>hasAnyCost\<close> is false. This holds of both files.
\<close>

theorem hidden_source_has_no_row:
  assumes "truthy_flag (hide_if_zero source)" and "getValue (c_energyData c) source = 0"
  shows "render_source_v130 h cfg (c_hass c) (c_energyData c) source acc = (None, acc)
       \<and> render_source_v100 h cfg (c_hass c) (c_energyData c) source acc = (None, acc)
       \<and> map_sources (render_source_v130 h cfg (c_hass c) (c_energyData c))
             (before @ source # after) acc
           = map_sources (render_source_v130 h cfg (c_hass c) (c_energyData c))
               (before @ after) acc
       \<and> map_sources (render_source_v100 h cfg (c_hass c) (c_energyData c))
             (before @ source # after) acc
           = map_sources (render_source_v100 h cfg (c_hass c) (c_energyData c))
               (before @ after) acc
       \<and> (c_config c = Some cfg \<and> sources cfg = [source] \<and> net_metering cfg = None \<longrightarrow>
            render_v130 h c = Some \<lparr> rows = [], netMeteringRow = None, totalCost = Fin 0,
                                     hasAnyCost = False, console = [] \<rparr>
          \<and> render_v100 h c = Some \<lparr> rows = [], netMeteringRow = None, totalCost = Fin 0,
                                     hasAnyCost = False, console = [] \<rparr>)"
proof -
  have none:
    "render_source_v130 h cfg (c_hass c) (c_energyData c) source acc = (None, acc)
     \<and> render_source_v100 h cfg (c_hass c) (c_energyData c) source acc = (None, acc)"
    by (simp add: render_source_hidden assms)
  have skip130:
    "map_sources (render_source_v130 h cfg (c_hass c) (c_energyData c)) (xs @ source # ys) a
       = map_sources (render_source_v130 h cfg (c_hass c) (c_energyData c)) (xs @ ys) a"
    for xs ys a
    by (rule map_sources_skip) (simp add: render_source_hidden assms)
  have skip100:
    "map_sources (render_source_v100 h cfg (c_hass c) (c_energyData c)) (xs @ source # ys) a
       = map_sources (render_source_v100 h cfg (c_hass c) (c_energyData c)) (xs @ ys) a"
    for xs ys a
    by (rule map_sources_skip) (simp add: render_source_hidden assms)
  have "render_v130 h c = Some \<lparr> rows = [], netMeteringRow = None, totalCost = Fin 0,
                                  hasAnyCost = False, console = [] \<rparr>
      \<and> render_v100 h c = Some \<lparr> rows = [], netMeteringRow = None, totalCost = Fin 0,
                                  hasAnyCost = False, console = [] \<rparr>"
    if "c_config c = Some cfg" "sources cfg = [source]" "net_metering cfg = None"
    using that skip130 [of "[]" "[]"] skip100 [of "[]" "[]"]
    by (simp add: render_v130_def render_v100_def)
  with none skip130 skip100 show ?thesis by blast
qed

text \<open>
  A solar source with \<^verbatim>\<open>hide_if_zero\<close> and no statistics, alone in the configuration:
  no rows, no total.
\<close>

theorem hidden_source_has_no_row_witness:
  "truthy_flag (hide_if_zero (blank_source \<lparr> entity := Some ''solar'', hide_if_zero := Some True \<rparr>))
   \<and> getValue Map.empty (blank_source \<lparr> entity := Some ''solar'', hide_if_zero := Some True \<rparr>) = 0
   \<and> render_v130 plain_host
        (new_card \<lparr> c_config := Some (default_config
            [blank_source \<lparr> entity := Some ''solar'', hide_if_zero := Some True \<rparr>]) \<rparr>)
      = Some \<lparr> rows = [], netMeteringRow = None, totalCost = Fin 0, hasAnyCost = False,
               console = [] \<rparr>
   \<and> render_v100 plain_host
        (new_card \<lparr> c_config := Some (default_config
            [blank_source \<lparr> entity := Some ''solar'', hide_if_zero := Some True \<rparr>]) \<rparr>)
      = Some \<lparr> rows = [], netMeteringRow = None, totalCost = Fin 0, hasAnyCost = False,
               console = [] \<rparr>"
  using hidden_source_has_no_row [where
      source = "blank_source \<lparr> entity := Some ''solar'', hide_if_zero := Some True \<rparr>"
      and c = "new_card \<lparr> c_config := Some (default_config
            [blank_source \<lparr> entity := Some ''solar'', hide_if_zero := Some True \<rparr>]) \<rparr>"
      and h = plain_host
      and cfg = "default_config
            [blank_source \<lparr> entity := Some ''solar'', hide_if_zero := Some True \<rparr>]"
      and before = "[]" and after = "[]" and acc = "(Fin 0, False, [])"]
  by (simp add: blank_source_def new_card_def default_config_def getValue_def value_or_zero_def)

text \<open>
  In 1.3.0 a cost that is \<^verbatim>\<open>NaN\<close> stays out of the total and is printed as the empty
  string.
\<close>

lemma render_source_v130_nan:
  assumes "fst (calculateCost_v130 h hass source (getValue energyData source)) = Some NaN"
    and "\<not> (truthy_flag (hide_if_zero source) \<and> getValue energyData source = 0)"
  shows "map_option row_cost (fst (render_source_v130 h cfg hass energyData source (tc, hasAny, logs)))
           = Some (Some NaN)"
    and "map_option row_costFormatted
           (fst (render_source_v130 h cfg hass energyData source (tc, hasAny, logs))) = Some []"
    and "fst (snd (render_source_v130 h cfg hass energyData source (tc, hasAny, logs))) = tc"
    and "fst (snd (snd (render_source_v130 h cfg hass energyData source (tc, hasAny, logs)))) = hasAny"
  using assms by (simp_all add: render_source_v130_def formatCost_v130_def split_beta Let_def)

text \<open>
  C10. In 1.3.0, when the formula of a source evaluates to \<^verbatim>\<open>NaN\<close> without throwing,
  the row of the source carries the cost \<^verbatim>\<open>NaN\<close> and the empty string as its formatted
  cost, and the running total and \<^verbatim>\<open>hasAnyCost\<close> are what they were before the row.
  When it is the only source and there is no net metering, the total is \<open>0\<close> and
  \<^verbatim>\<open>hasAnyCost\<close> is false.
\<close>

theorem nan_cost_is_left_out:
  assumes "truthy_flag (show_cost source)" and "truthy_str (cost_formula source)"
    and "Function_return h
           (replace_word ''rate'' (numberToString h (fst (resolveRate_v130 hass source)))
              (replace_word ''value'' (numberToString h (Fin (getValue energyData source)))
                 (the (cost_formula source)))) = Returns NaN"
    and "\<not> (truthy_flag (hide_if_zero source) \<and> getValue energyData source = 0)"
  shows "map_option row_cost
           (fst (render_source_v130 h cfg hass energyData source (tc, hasAny, logs)))
           = Some (Some NaN)
       \<and> map_option row_costFormatted
           (fst (render_source_v130 h cfg hass energyData source (tc, hasAny, logs))) = Some []
       \<and> fst (snd (render_source_v130 h cfg hass energyData source (tc, hasAny, logs))) = tc
       \<and> fst (snd (snd (render_source_v130 h cfg hass energyData source (tc, hasAny, logs))))
           = hasAny
       \<and> (sources cfg = [source] \<and> net_metering cfg = None \<longrightarrow>
            map_option totalCost
              (render_v130 h \<lparr> c_config = Some cfg, c_hass = hass, c_energyData = energyData \<rparr>)
              = Some (Fin 0)
          \<and> map_option hasAnyCost
              (render_v130 h \<lparr> c_config = Some cfg, c_hass = hass, c_energyData = energyData \<rparr>)
              = Some False
          \<and> map_option (map row_costFormatted \<circ> rows)
              (render_v130 h \<lparr> c_config = Some cfg, c_hass = hass, c_energyData = energyData \<rparr>)
              = Some [[]])"
proof -
  have nan: "fst (calculateCost_v130 h hass source (getValue energyData source)) = Some NaN"
    using assms(1-3) by (simp add: calculateCost_v130_formula)
  note row = render_source_v130_nan [OF nan assms(4)]
  have whole: "map_option totalCost
              (render_v130 h \<lparr> c_config = Some cfg, c_hass = hass, c_energyData = energyData \<rparr>)
              = Some (Fin 0)
          \<and> map_option hasAnyCost
              (render_v130 h \<lparr> c_config = Some cfg, c_hass = hass, c_energyData = energyData \<rparr>)
              = Some False
          \<and> map_option (map row_costFormatted \<circ> rows)
              (render_v130 h \<lparr> c_config = Some cfg, c_hass = hass, c_energyData = energyData \<rparr>)
              = Some [[]]"
    if "sources cfg = [source]" "net_metering cfg = None"
    using that row [of cfg "Fin 0" False "[]"]
    by (auto simp: render_v130_def split_beta Let_def split: option.splits)
  from row whole show ?thesis by blast
qed

text \<open>
  The formula \<^verbatim>\<open>value / value\<close> on a source without statistics is \<^verbatim>\<open>0 / 0\<close>, which is
  \<^verbatim>\<open>NaN\<close>.
\<close>

lemma nan_formula_example:
  "Function_return plain_host
     (replace_word ''rate''
        (numberToString plain_host
           (fst (resolveRate_v130 None
              (blank_source \<lparr> entity := Some ''solar'', show_cost := Some True,
                              cost_formula := Some ''value / value'' \<rparr>))))
        (replace_word ''value''
           (numberToString plain_host
              (Fin (getValue Map.empty
                 (blank_source \<lparr> entity := Some ''solar'', show_cost := Some True,
                                 cost_formula := Some ''value / value'' \<rparr>))))
           (the (cost_formula
              (blank_source \<lparr> entity := Some ''solar'', show_cost := Some True,
                              cost_formula := Some ''value / value'' \<rparr>)))))
     = Returns NaN"
  by code_simp

theorem nan_cost_is_left_out_witness:
  "map_option totalCost
     (render_v130 plain_host
        \<lparr> c_config = Some (default_config
             [blank_source \<lparr> entity := Some ''solar'', show_cost := Some True,
                             cost_formula := Some ''value / value'' \<rparr>]),
          c_hass = None, c_energyData = Map.empty \<rparr>) = Some (Fin 0)
   \<and> map_option hasAnyCost
     (render_v130 plain_host
        \<lparr> c_config = Some (default_config
             [blank_source \<lparr> entity := Some ''solar'', show_cost := Some True,
                             cost_formula := Some ''value / value'' \<rparr>]),
          c_hass = None, c_energyData = Map.empty \<rparr>) = Some False
   \<and> map_option (map row_costFormatted \<circ> rows)
     (render_v130 plain_host
        \<lparr> c_config = Some (default_config
             [blank_source \<lparr> entity := Some ''solar'', show_cost := Some True,
                             cost_formula := Some ''value / value'' \<rparr>]),
          c_hass = None, c_energyData = Map.empty \<rparr>) = Some [[]]"
proof -
  have h1: "truthy_flag (show_cost (blank_source \<lparr> entity := Some ''solar'', show_cost := Some True,
                             cost_formula := Some ''value / value'' \<rparr>))"
    by simp
  have h2: "truthy_str (cost_formula (blank_source \<lparr> entity := Some ''solar'', show_cost := Some True,
                             cost_formula := Some ''value / value'' \<rparr>))"
    by simp
  have h4: "\<not> (truthy_flag (hide_if_zero (blank_source \<lparr> entity := Some ''solar'', show_cost := Some True,
                             cost_formula := Some ''value / value'' \<rparr>))
              \<and> getValue Map.empty (blank_source \<lparr> entity := Some ''solar'', show_cost := Some True,
                             cost_formula := Some ''value / value'' \<rparr>) = 0)"
    by (simp add: blank_source_def)
  show ?thesis
    using nan_cost_is_left_out [OF h1 h2 nan_formula_example h4,
        of "default_config [blank_source \<lparr> entity := Some ''solar'', show_cost := Some True,
                             cost_formula := Some ''value / value'' \<rparr>]" "Fin 0" False "[]"]
    by (simp add: default_config_def)
qed


end
